theory Spec2Isabelle
  imports Main "HOL-Library.Multiset"
begin

section \<open>Feature categorisation of \<open>1.train_models.py\<close>\<close>

text \<open>
  The script is a linear notebook export. Its only branching logic is the loop that sorts
  the column names of the training table into three lists. Column names are Python strings,
  modelled as \<^typ>\<open>string\<close>. The three string primitives the loop uses are written out:
  \<^verbatim>\<open>column.startswith(p)\<close>, \<^verbatim>\<open>column.split("_")\<close> and \<^verbatim>\<open>sub in s\<close>.
\<close>

subsection \<open>String primitives\<close>

definition startswith :: "string \<Rightarrow> string \<Rightarrow> bool" where
  "startswith s p = (take (length p) s = p)"

text \<open>
  \<^verbatim>\<open>s.split(sep)\<close> for a one-character separator: the pieces between the separators,
  empty pieces kept, so the result always has one piece more than \<open>s\<close> has separators.
\<close>

fun str_split :: "string \<Rightarrow> char \<Rightarrow> string list" where
  "str_split [] sep = [[]]"
| "str_split (c # cs) sep =
     (if c = sep then [] # str_split cs sep
      else (case str_split cs sep of
              [] \<Rightarrow> [[c]]
            | p # ps \<Rightarrow> (c # p) # ps))"

text \<open>\<^verbatim>\<open>sub in s\<close>: \<open>sub\<close> occurs in \<open>s\<close> as a contiguous piece.\<close>

fun contains :: "string \<Rightarrow> string \<Rightarrow> bool" where
  "contains [] sub = (sub = [])"
| "contains (c # cs) sub = (startswith (c # cs) sub \<or> contains cs sub)"

subsection \<open>The three feature lists\<close>

datatype feature_group = Nucleus | A647 | GOLD

datatype error = IndexError | KeyError | FitError | OSError

record feature_lists =
  nucleus_features :: "string list"
  a647_features :: "string list"
  gold_features :: "string list"

definition no_features :: feature_lists where
  "no_features = \<lparr>nucleus_features = [], a647_features = [], gold_features = []\<rparr>"

text \<open>
  The body of the loop decides, for one column, which list it is appended to. The decision
  is the nested \<^verbatim>\<open>if\<close>/\<^verbatim>\<open>elif\<close> chain of lines 72 to 101, in the order of the source:
  \<open>Some g\<close> stands for \<^verbatim>\<open>g_features.append(column)\<close>, \<open>None\<close> for a path that
  reaches the end of the body without an append (a metadata column, or a chain without a
  final \<^verbatim>\<open>else\<close>). The two arms of the test on line 75 are named and defined first.
\<close>

text \<open>Lines 76 to 85: the arm taken when \<^verbatim>\<open>"Correlation" in parts[1]\<close>.\<close>

definition correlation_group :: "string \<Rightarrow> string list \<Rightarrow> feature_group option" where
  "correlation_group column parts =
     (if contains column ''DAPI'' then
        (if length parts > 4 \<and> (contains (parts ! 3) ''A647'' \<or> contains (parts ! 4) ''A647'')
         then Some A647
         else if length parts > 4 \<and> (contains (parts ! 3) ''GOLD'' \<or> contains (parts ! 4) ''GOLD'')
         then Some GOLD
         else None)
      else
        (if length parts > 3 \<and> contains (parts ! 3) ''A647'' then Some A647
         else if length parts > 3 \<and> contains (parts ! 3) ''GOLD'' then Some GOLD
         else None))"

text \<open>Lines 88 to 93: the inner chain of the Location test of line 87.\<close>

definition location_group :: "string list \<Rightarrow> feature_group option" where
  "location_group parts =
     (if parts ! 4 = ''DAPI'' then Some Nucleus
      else if parts ! 4 = ''A647'' then Some A647
      else if parts ! 4 = ''GOLD'' then Some GOLD
      else None)"

text \<open>Lines 87 to 101: the arm of the features that are not correlation features.\<close>

definition non_correlation_group :: "string list \<Rightarrow> feature_group option" where
  "non_correlation_group parts =
     (if length parts > 4 \<and> contains (parts ! 1) ''Location'' then location_group parts
      else if length parts > 3 \<and> contains (parts ! 3) ''DAPI'' then Some Nucleus
      else if length parts > 3 \<and> contains (parts ! 3) ''A647'' then Some A647
      else if length parts > 3 \<and> contains (parts ! 3) ''GOLD'' then Some GOLD
      else Some Nucleus)"

text \<open>
  Lines 72 to 75. \<^verbatim>\<open>parts[1]\<close> on line 75 is evaluated for every column that is not a
  metadata column and raises \<^verbatim>\<open>IndexError\<close> when the name has a single part. Every
  other index is guarded by a test of \<^verbatim>\<open>len(parts)\<close> in the source.
\<close>

definition feature_group_of :: "string \<Rightarrow> error + feature_group option" where
  "feature_group_of column =
     (if \<not> startswith column ''Metadata_'' then
        (let parts = str_split column (CHR ''_'') in
         if length parts \<le> 1 then Inl IndexError
         else if contains (parts ! 1) ''Correlation'' then Inr (correlation_group column parts)
         else Inr (non_correlation_group parts))
      else Inr None)"

fun append_feature :: "feature_group option \<Rightarrow> string \<Rightarrow> feature_lists \<Rightarrow> feature_lists" where
  "append_feature None column fl = fl"
| "append_feature (Some Nucleus) column fl = fl\<lparr>nucleus_features := nucleus_features fl @ [column]\<rparr>"
| "append_feature (Some A647) column fl = fl\<lparr>a647_features := a647_features fl @ [column]\<rparr>"
| "append_feature (Some GOLD) column fl = fl\<lparr>gold_features := gold_features fl @ [column]\<rparr>"

text \<open>
  The loop over \<^verbatim>\<open>training_df.columns\<close>. The exception of line 75 is not caught, so the
  first column that raises ends the run.
\<close>

fun categorize :: "string list \<Rightarrow> feature_lists \<Rightarrow> error + feature_lists" where
  "categorize [] fl = Inr fl"
| "categorize (column # columns) fl =
     (case feature_group_of column of
        Inl e \<Rightarrow> Inl e
      | Inr g \<Rightarrow> categorize columns (append_feature g column fl))"

definition classify_columns :: "string list \<Rightarrow> error + feature_lists" where
  "classify_columns columns = categorize columns no_features"

text \<open>
  Two observations on the result, used to state where a column ended up: the set of groups
  whose list holds a column, and the columns that the loop examines but appends nowhere.
\<close>

definition groups_holding :: "feature_lists \<Rightarrow> string \<Rightarrow> feature_group set" where
  "groups_holding fl column =
     (if column \<in> set (nucleus_features fl) then {Nucleus} else {}) \<union>
     (if column \<in> set (a647_features fl) then {A647} else {}) \<union>
     (if column \<in> set (gold_features fl) then {GOLD} else {})"

definition is_metadata :: "string \<Rightarrow> bool" where
  "is_metadata column = startswith column ''Metadata_''"

definition dropped :: "string \<Rightarrow> bool" where
  "dropped column = (\<not> is_metadata column \<and> feature_group_of column = Inr None)"

section \<open>The training run\<close>

subsection \<open>Tables\<close>

text \<open>
  A data frame is its columns in order, each a name with its values, one value per row.
  The table is read from a parquet file, whose column names are unique. \<^verbatim>\<open>df[name]\<close>
  raises \<^verbatim>\<open>KeyError\<close> for a name the table does not have; \<^verbatim>\<open>df[names]\<close>
  selects the named columns in the order of \<^verbatim>\<open>names\<close>.
\<close>

type_synonym 'a series = "string \<times> 'a list"

type_synonym 'a frame = "'a series list"

definition get_column :: "'a frame \<Rightarrow> string \<Rightarrow> error + 'a series" where
  "get_column df name =
     (case map_of df name of
        None \<Rightarrow> Inl KeyError
      | Some vals \<Rightarrow> Inr (name, vals))"

fun get_columns :: "'a frame \<Rightarrow> string list \<Rightarrow> error + 'a frame" where
  "get_columns df [] = Inr []"
| "get_columns df (name # names) =
     (case get_column df name of
        Inl e \<Rightarrow> Inl e
      | Inr col \<Rightarrow>
          (case get_columns df names of
             Inl e \<Rightarrow> Inl e
           | Inr cols \<Rightarrow> Inr (col # cols)))"

subsection \<open>The shuffled baseline\<close>

text \<open>
  Lines 108 to 110. \<^verbatim>\<open>np.random.shuffle\<close> is a routine of the numerical library, not
  of this repository: it is a parameter \<open>shuffle\<close> of the model, which takes the state
  \<open>g\<close> of the global generator and the values of one column and returns the shuffled
  values with the next state. The loop visits the columns of the copy in order and threads
  the generator through them. \<^verbatim>\<open>X.copy()\<close> leaves \<open>X\<close> as it was; values are
  immutable here, so the copy is \<open>X\<close> itself.
\<close>

fun shuffle_columns ::
  "('g \<Rightarrow> 'a list \<Rightarrow> 'a list \<times> 'g) \<Rightarrow> 'a frame \<Rightarrow> 'g \<Rightarrow> 'a frame \<times> 'g" where
  "shuffle_columns shuffle [] g = ([], g)"
| "shuffle_columns shuffle ((name, vals) # cols) g =
     (case shuffle g vals of
        (vals', g') \<Rightarrow>
          (case shuffle_columns shuffle cols g' of
             (cols', g'') \<Rightarrow> ((name, vals') # cols', g'')))"

text \<open>A stand-in generator for examples: the state is a counter, a shuffle rotates by it.\<close>

definition rotate_shuffle :: "nat \<Rightarrow> 'a list \<Rightarrow> 'a list \<times> nat" where
  "rotate_shuffle g vals = (rotate g vals, Suc g)"

subsection \<open>Paths\<close>

text \<open>
  The script builds its file names with \<^verbatim>\<open>pathlib\<close> on a POSIX system. A path is the
  list of its components, as \<^verbatim>\<open>.parts\<close> gives them: an absolute path starts with the
  root \<open>/\<close> (or \<open>//\<close> for exactly two leading slashes). Parsing a string splits it at
  \<open>/\<close> and drops the empty and the \<open>.\<close> components; \<open>..\<close> is kept. The operator
  \<^verbatim>\<open>p / s\<close> appends the components of \<open>s\<close> to \<open>p\<close>, unless \<open>s\<close> is absolute:
  then the result is \<open>s\<close> alone.
\<close>

type_synonym path = "string list"

definition path_names :: "string \<Rightarrow> string list" where
  "path_names s = filter (\<lambda>c. c \<noteq> [] \<and> c \<noteq> ''.'') (str_split s (CHR ''/''))"

definition path_root :: "string \<Rightarrow> string" where
  "path_root s =
     (if startswith s ''//'' \<and> \<not> startswith s ''///'' then ''//''
      else if startswith s ''/'' then ''/''
      else [])"

definition path_div :: "path \<Rightarrow> string \<Rightarrow> path" where
  "path_div p s =
     (if startswith s ''/'' then path_root s # path_names s
      else p @ path_names s)"

text \<open>Lines 43 to 53: \<^verbatim>\<open>pathlib.Path("./models")\<close> and the three directories under it.\<close>

definition model_dir :: path where
  "model_dir = path_div [] ''./models''"

definition final_dir :: path where
  "final_dir = path_div model_dir ''final''"

definition shuffled_dir :: path where
  "shuffled_dir = path_div model_dir ''shuffled_baseline''"

definition all_features_dir :: path where
  "all_features_dir = path_div model_dir ''all_features''"

subsection \<open>Fitting and saving\<close>

text \<open>
  A target is one column (\<^verbatim>\<open>training_df[feature]\<close>, a series) or a table of columns
  (\<^verbatim>\<open>training_df[feature_list]\<close>). The hyperparameter search with its refit,
  \<^verbatim>\<open>RandomizedSearchCV(...).fit(P, y).best_estimator_\<close>, is library code: it is the
  parameter \<open>fit\<close>, which returns the estimator or fails. It is seeded by its own
  \<^verbatim>\<open>random_state\<close> and does not draw from the global generator.
  \<^verbatim>\<open>joblib.dump(estimator, file)\<close> is library code working on the file system of the
  machine: it is the parameter \<open>dump\<close>, which returns \<open>None\<close> when the file was written
  and the error otherwise (a missing directory, a path that cannot be written).
\<close>

datatype 'a target = Single "'a series" | Multi "'a frame"

text \<open>
  Each \<^verbatim>\<open>fit\<close> followed by a \<^verbatim>\<open>joblib.dump\<close> that succeeds adds one entry to the log
  of the run: the predictor matrix and the target passed to the fit, the file written, the
  estimator. An exception is not caught anywhere in the script, so the first failure ends
  the run; the files written before it stay, and the failure carries the log so far.
\<close>

record ('a, 'm) saved_model =
  predictors :: "'a frame"
  target :: "'a target"
  saved_to :: path
  estimator :: 'm

definition fit_and_dump ::
  "('a frame \<Rightarrow> 'a target \<Rightarrow> error + 'm) \<Rightarrow> ('m \<Rightarrow> path \<Rightarrow> error option)
     \<Rightarrow> 'a frame \<Rightarrow> 'a target \<Rightarrow> path
     \<Rightarrow> ('a, 'm) saved_model list
     \<Rightarrow> (error \<times> ('a, 'm) saved_model list) + ('a, 'm) saved_model list" where
  "fit_and_dump fit dump P y file log =
     (case fit P y of
        Inl e \<Rightarrow> Inl (e, log)
      | Inr best \<Rightarrow>
          (case dump best file of
             Some e \<Rightarrow> Inl (e, log)
           | None \<Rightarrow>
               Inr (log @ [\<lparr>predictors = P, target = y, saved_to = file, estimator = best\<rparr>])))"

text \<open>Lines 180 to 203: the loop over \<^verbatim>\<open>stain_feature_sets\<close>.\<close>

fun train_combined ::
  "('a frame \<Rightarrow> 'a target \<Rightarrow> error + 'm) \<Rightarrow> ('m \<Rightarrow> path \<Rightarrow> error option)
     \<Rightarrow> 'a frame \<Rightarrow> 'a frame \<Rightarrow> 'a frame
     \<Rightarrow> (string \<times> string list) list
     \<Rightarrow> ('a, 'm) saved_model list
     \<Rightarrow> (error \<times> ('a, 'm) saved_model list) + ('a, 'm) saved_model list" where
  "train_combined fit dump training_df X X_shuffled [] log = Inr log"
| "train_combined fit dump training_df X X_shuffled ((stain_name, feature_list) # sets) log =
     (case get_columns training_df feature_list of
        Inl e \<Rightarrow> Inl (e, log)
      | Inr y_matrix \<Rightarrow>
          (case fit_and_dump fit dump X (Multi y_matrix)
                  (path_div all_features_dir (''combined_'' @ stain_name @ ''_tuned_model.joblib''))
                  log of
             Inl failure \<Rightarrow> Inl failure
           | Inr log1 \<Rightarrow>
               (case fit_and_dump fit dump X_shuffled (Multi y_matrix)
                       (path_div all_features_dir
                          (''combined_'' @ stain_name @ ''_shuffled_tuned_model.joblib''))
                       log1 of
                  Inl failure \<Rightarrow> Inl failure
                | Inr log2 \<Rightarrow> train_combined fit dump training_df X X_shuffled sets log2)))"

text \<open>
  Lines 216 to 238 and 248 to 269: the two loops over the individual features have the same
  body, so one function models both.
\<close>

fun train_individual ::
  "('a frame \<Rightarrow> 'a target \<Rightarrow> error + 'm) \<Rightarrow> ('m \<Rightarrow> path \<Rightarrow> error option)
     \<Rightarrow> 'a frame \<Rightarrow> 'a frame \<Rightarrow> 'a frame
     \<Rightarrow> string list
     \<Rightarrow> ('a, 'm) saved_model list
     \<Rightarrow> (error \<times> ('a, 'm) saved_model list) + ('a, 'm) saved_model list" where
  "train_individual fit dump training_df X X_shuffled [] log = Inr log"
| "train_individual fit dump training_df X X_shuffled (feature # features) log =
     (case get_column training_df feature of
        Inl e \<Rightarrow> Inl (e, log)
      | Inr y \<Rightarrow>
          (case fit_and_dump fit dump X (Single y)
                  (path_div final_dir (feature @ ''_tuned_model.joblib'')) log of
             Inl failure \<Rightarrow> Inl failure
           | Inr log1 \<Rightarrow>
               (case fit_and_dump fit dump X_shuffled (Single y)
                       (path_div shuffled_dir (feature @ ''_shuffled_tuned_model.joblib'')) log1 of
                  Inl failure \<Rightarrow> Inl failure
                | Inr log2 \<Rightarrow> train_individual fit dump training_df X X_shuffled features log2)))"

text \<open>
  The script from line 71 on. \<open>g\<close> is the state of the global generator left by
  \<^verbatim>\<open>np.random.seed(0)\<close> on line 40. A run that completes returns the log of the saved
  models and the final state of the global generator; a run that fails returns the error
  raised with the log of the models saved before it. The creation of the directories (its
  effect is part of what \<open>dump\<close> stands for), the YAML dump of the three lists and the
  progress output are left out.
\<close>

definition run ::
  "('a frame \<Rightarrow> 'a target \<Rightarrow> error + 'm) \<Rightarrow> ('m \<Rightarrow> path \<Rightarrow> error option)
     \<Rightarrow> ('g \<Rightarrow> 'a list \<Rightarrow> 'a list \<times> 'g) \<Rightarrow> 'a frame \<Rightarrow> 'g
     \<Rightarrow> (error \<times> ('a, 'm) saved_model list) + (('a, 'm) saved_model list \<times> 'g)" where
  "run fit dump shuffle training_df g =
     (case classify_columns (map fst training_df) of
        Inl e \<Rightarrow> Inl (e, [])
      | Inr fl \<Rightarrow>
          (case get_columns training_df (nucleus_features fl) of
             Inl e \<Rightarrow> Inl (e, [])
           | Inr X \<Rightarrow>
               (case shuffle_columns shuffle X g of
                  (X_shuffled, g') \<Rightarrow>
                    (case train_combined fit dump training_df X X_shuffled
                            [(''A647'', a647_features fl), (''GOLD'', gold_features fl)] [] of
                       Inl failure \<Rightarrow> Inl failure
                     | Inr log1 \<Rightarrow>
                         (case train_individual fit dump training_df X X_shuffled
                                 (a647_features fl) log1 of
                            Inl failure \<Rightarrow> Inl failure
                          | Inr log2 \<Rightarrow>
                              (case train_individual fit dump training_df X X_shuffled
                                      (gold_features fl) log2 of
                                 Inl failure \<Rightarrow> Inl failure
                               | Inr log3 \<Rightarrow> Inr (log3, g')))))))"

text \<open>
  Stand-ins for examples. A search that never fails, whose estimator is the list of the
  names of the predictor columns it was given; a search that, as the library's does, rejects
  a target without columns; a dump that always succeeds.
\<close>

definition names_fit :: "'a frame \<Rightarrow> 'a target \<Rightarrow> error + string list" where
  "names_fit P y = Inr (map fst P)"

definition nonempty_fit :: "'a frame \<Rightarrow> 'a target \<Rightarrow> error + string list" where
  "nonempty_fit P y =
     (case y of
        Multi [] \<Rightarrow> Inl FitError
      | _ \<Rightarrow> Inr (map fst P))"

definition plain_dump :: "'m \<Rightarrow> path \<Rightarrow> error option" where
  "plain_dump best file = None"

section \<open>Properties of the feature categorisation\<close>

subsection \<open>Splitting and the index error\<close>

lemma length_str_split: "length (str_split s sep) = Suc (length (filter (\<lambda>c. c = sep) s))"
  by (induction s) (auto split: list.splits)

lemma str_split_single_iff: "length (str_split s sep) \<le> 1 \<longleftrightarrow> sep \<notin> set s"
  by (auto simp add: length_str_split filter_empty_conv)

lemma startswith_Metadata_underscore: "startswith column ''Metadata_'' \<Longrightarrow> CHR ''_'' \<in> set column"
proof -
  assume "startswith column ''Metadata_''"
  then have "take (length ''Metadata_'') column = ''Metadata_''" by (simp only: startswith_def)
  then have "set (take (length ''Metadata_'') column) = set ''Metadata_''" by (rule arg_cong)
  moreover have "CHR ''_'' \<in> set ''Metadata_''" by simp
  ultimately have "CHR ''_'' \<in> set (take (length ''Metadata_'') column)" by (simp only:)
  then show ?thesis by (rule in_set_takeD)
qed

lemma feature_group_of_error_iff:
  "feature_group_of column = Inl e \<longleftrightarrow> e = IndexError \<and> CHR ''_'' \<notin> set column"
proof (cases "startswith column ''Metadata_''")
  case True
  then show ?thesis
    using startswith_Metadata_underscore[OF True] by (simp add: feature_group_of_def)
next
  case False
  then show ?thesis
    using str_split_single_iff[of column "CHR ''_''"]
    by (auto simp add: feature_group_of_def Let_def)
qed

lemma categorize_filter:
  "categorize columns fl = Inr fl' \<Longrightarrow>
     nucleus_features fl' = nucleus_features fl @ filter (\<lambda>c. feature_group_of c = Inr (Some Nucleus)) columns \<and>
     a647_features fl' = a647_features fl @ filter (\<lambda>c. feature_group_of c = Inr (Some A647)) columns \<and>
     gold_features fl' = gold_features fl @ filter (\<lambda>c. feature_group_of c = Inr (Some GOLD)) columns"
proof (induction columns arbitrary: fl)
  case Nil
  then show ?case by simp
next
  case (Cons c cs)
  from Cons.prems obtain g where g: "feature_group_of c = Inr g"
    and rest: "categorize cs (append_feature g c fl) = Inr fl'"
    by (auto split: sum.splits)
  show ?case
  proof (cases g)
    case None
    with g Cons.IH[OF rest] show ?thesis by simp
  next
    case (Some grp)
    with g Cons.IH[OF rest] show ?thesis by (cases grp) simp_all
  qed
qed

lemma categorize_ok_iff:
  "(\<exists>fl'. categorize columns fl = Inr fl') \<longleftrightarrow> (\<forall>c \<in> set columns. CHR ''_'' \<in> set c)"
proof (induction columns arbitrary: fl)
  case Nil
  then show ?case by simp
next
  case (Cons c cs)
  show ?case
  proof (cases "feature_group_of c")
    case (Inl e)
    then show ?thesis using feature_group_of_error_iff[of c e] by auto
  next
    case (Inr g)
    then have "CHR ''_'' \<in> set c" using feature_group_of_error_iff[of c IndexError] by auto
    with Inr Cons.IH[of "append_feature g c fl"] show ?thesis by simp
  qed
qed

lemma categorize_error:
  "categorize columns fl = Inl e \<Longrightarrow> e = IndexError"
proof (induction columns arbitrary: fl)
  case Nil
  then show ?case by simp
next
  case (Cons c cs)
  then show ?case using feature_group_of_error_iff[of c e] by (auto split: sum.splits)
qed

lemma classified_lists:
  assumes "classify_columns columns = Inr fl"
  shows "nucleus_features fl = filter (\<lambda>c. feature_group_of c = Inr (Some Nucleus)) columns"
    and "a647_features fl = filter (\<lambda>c. feature_group_of c = Inr (Some A647)) columns"
    and "gold_features fl = filter (\<lambda>c. feature_group_of c = Inr (Some GOLD)) columns"
  using categorize_filter[of columns no_features fl] assms
  by (simp_all add: classify_columns_def no_features_def)

lemma groups_holding_classified:
  assumes "classify_columns columns = Inr fl" and "column \<in> set columns"
  shows "groups_holding fl column = (case feature_group_of column of Inr (Some g) \<Rightarrow> {g} | _ \<Rightarrow> {})"
proof (cases "feature_group_of column")
  case (Inl e)
  then show ?thesis by (simp add: groups_holding_def classified_lists[OF assms(1)])
next
  case (Inr g)
  show ?thesis
  proof (cases g)
    case None
    with Inr show ?thesis by (simp add: groups_holding_def classified_lists[OF assms(1)])
  next
    case (Some grp)
    with Inr assms(2) show ?thesis
      by (cases grp) (simp_all add: groups_holding_def classified_lists[OF assms(1)])
  qed
qed

lemma classified_no_error:
  assumes "classify_columns columns = Inr fl" and "column \<in> set columns"
  shows "\<exists>g. feature_group_of column = Inr g"
proof -
  from assms(1) have "\<exists>fl'. categorize columns no_features = Inr fl'"
    by (simp add: classify_columns_def)
  then have "CHR ''_'' \<in> set column" using assms(2) by (simp add: categorize_ok_iff)
  then show ?thesis using feature_group_of_error_iff[of column] by (cases "feature_group_of column") auto
qed

lemma mset_filter_groups:
  "\<forall>c \<in> set columns. \<exists>g. feature_group_of c = Inr g \<Longrightarrow>
   mset columns =
     mset (filter (\<lambda>c. feature_group_of c = Inr (Some Nucleus)) columns) +
     mset (filter (\<lambda>c. feature_group_of c = Inr (Some A647)) columns) +
     mset (filter (\<lambda>c. feature_group_of c = Inr (Some GOLD)) columns) +
     mset (filter is_metadata columns) +
     mset (filter dropped columns)"
proof (induction columns)
  case Nil
  then show ?case by simp
next
  case (Cons c cs)
  then obtain g where g: "feature_group_of c = Inr g" by auto
  have IH: "mset cs =
     mset (filter (\<lambda>c. feature_group_of c = Inr (Some Nucleus)) cs) +
     mset (filter (\<lambda>c. feature_group_of c = Inr (Some A647)) cs) +
     mset (filter (\<lambda>c. feature_group_of c = Inr (Some GOLD)) cs) +
     mset (filter is_metadata cs) +
     mset (filter dropped cs)" using Cons by simp
  have meta: "is_metadata c \<Longrightarrow> feature_group_of c = Inr None"
    by (simp add: is_metadata_def feature_group_of_def)
  show ?case
  proof (cases g)
    case None
    with g show ?thesis by (subst (1) mset.simps, subst IH) (auto simp add: dropped_def)
  next
    case (Some grp)
    with g meta have "\<not> is_metadata c" "\<not> dropped c" by (auto simp add: dropped_def)
    with g Some show ?thesis by (subst (1) mset.simps, subst IH) (cases grp; simp)
  qed
qed

lemma groups_disjoint:
  assumes "classify_columns columns = Inr fl"
  shows "set (nucleus_features fl) \<inter> set (a647_features fl) = {}"
    and "set (nucleus_features fl) \<inter> set (gold_features fl) = {}"
    and "set (a647_features fl) \<inter> set (gold_features fl) = {}"
  by (auto simp add: classified_lists[OF assms])

text \<open>
  The dropped columns, spelled out: a correlation feature for which the arm of lines 76 to 85
  appends nothing, or a Location feature of at least five parts whose \<open>parts[4]\<close> is none of
  the three markers.
\<close>

lemma dropped_iff:
  "dropped column \<longleftrightarrow>
     \<not> startswith column ''Metadata_''
     \<and> 2 \<le> length (str_split column (CHR ''_''))
     \<and> (if contains (str_split column (CHR ''_'') ! 1) ''Correlation''
        then correlation_group column (str_split column (CHR ''_'')) = None
        else 5 \<le> length (str_split column (CHR ''_''))
           \<and> contains (str_split column (CHR ''_'') ! 1) ''Location''
           \<and> str_split column (CHR ''_'') ! 4 \<noteq> ''DAPI''
           \<and> str_split column (CHR ''_'') ! 4 \<noteq> ''A647''
           \<and> str_split column (CHR ''_'') ! 4 \<noteq> ''GOLD'')"
proof (cases "startswith column ''Metadata_''")
  case True
  then show ?thesis by (simp add: dropped_def is_metadata_def)
next
  case meta: False
  define parts where "parts = str_split column (CHR ''_'')"
  show ?thesis
  proof (cases "length parts \<le> 1")
    case True
    with meta show ?thesis
      by (simp add: dropped_def is_metadata_def feature_group_of_def parts_def)
  next
    case long: False
    show ?thesis
    proof (cases "contains (parts ! 1) ''Correlation''")
      case True
      with meta long show ?thesis
        by (simp add: dropped_def is_metadata_def feature_group_of_def parts_def)
    next
      case False
      have "non_correlation_group parts = None \<longleftrightarrow>
              5 \<le> length parts \<and> contains (parts ! 1) ''Location''
              \<and> parts ! 4 \<noteq> ''DAPI'' \<and> parts ! 4 \<noteq> ''A647'' \<and> parts ! 4 \<noteq> ''GOLD''"
      proof (cases "length parts > 4 \<and> contains (parts ! 1) ''Location''")
        case True
        then show ?thesis by (simp add: non_correlation_group_def location_group_def)
      next
        case False
        then show ?thesis by (auto simp add: non_correlation_group_def)
      qed
      with meta long False show ?thesis
        by (simp add: dropped_def is_metadata_def feature_group_of_def parts_def)
    qed
  qed
qed

subsection \<open>The end-to-end scenario\<close>

text \<open>
  C1, as the source behaves: on the columns \<open>Metadata_Well\<close>,
  \<open>Nuclei_Correlation_DAPI_A647\<close>, \<open>Nuclei_Location_Center_GOLD\<close> and
  \<open>Cells_AreaShape_DAPI\<close> the loop yields Nucleus = [\<open>Cells_AreaShape_DAPI\<close>],
  Target-B = [\<open>Nuclei_Location_Center_GOLD\<close>] and an empty Target-A. The metadata column is
  in no list. \<open>Nuclei_Correlation_DAPI_A647\<close> has four parts and contains \<open>DAPI\<close>, so both
  tests of lines 77 and 79 fail on \<^verbatim>\<open>len(parts) > 4\<close> and the column is in no list either.
\<close>

theorem scenario_classification:
  "classify_columns [''Metadata_Well'', ''Nuclei_Correlation_DAPI_A647'',
                     ''Nuclei_Location_Center_GOLD'', ''Cells_AreaShape_DAPI'']
   = Inr \<lparr>nucleus_features = [''Cells_AreaShape_DAPI''],
          a647_features = [],
          gold_features = [''Nuclei_Location_Center_GOLD'']\<rparr>"
  by code_simp

text \<open>
  C1 as the specification states it, with Target-A = [\<open>Nuclei_Correlation_DAPI_A647\<close>],
  is not what the loop returns on these columns.
\<close>

theorem scenario_target_a_counterexample:
  "classify_columns [''Metadata_Well'', ''Nuclei_Correlation_DAPI_A647'',
                     ''Nuclei_Location_Center_GOLD'', ''Cells_AreaShape_DAPI'']
   \<noteq> Inr \<lparr>nucleus_features = [''Cells_AreaShape_DAPI''],
          a647_features = [''Nuclei_Correlation_DAPI_A647''],
          gold_features = [''Nuclei_Location_Center_GOLD'']\<rparr>"
  by code_simp

subsection \<open>The lists partition the columns, dropped columns included\<close>

text \<open>
  C2 as the specification states it fails: a column can be absent from all three lists
  without being a metadata column. \<open>Nuclei_Correlation_DAPI_A647\<close> alone gives three empty
  lists.
\<close>

theorem dropped_column_counterexample:
  "classify_columns [''Nuclei_Correlation_DAPI_A647'']
     = Inr \<lparr>nucleus_features = [], a647_features = [], gold_features = []\<rparr>
   \<and> \<not> is_metadata ''Nuclei_Correlation_DAPI_A647''"
  by code_simp

text \<open>
  C2, amended: when the loop finishes, the three lists are pairwise disjoint, and every
  input column is, with its multiplicity, in exactly one of five places: the Nucleus list,
  the Target-A list, the Target-B list, the metadata columns, or the dropped columns (the
  columns that are not metadata and reach no append, characterised by \<open>dropped_iff\<close>). For
  column names without repetition this is "exactly once".
\<close>

theorem feature_lists_partition:
  assumes "classify_columns columns = Inr fl"
  shows "set (nucleus_features fl) \<inter> set (a647_features fl) = {}
       \<and> set (nucleus_features fl) \<inter> set (gold_features fl) = {}
       \<and> set (a647_features fl) \<inter> set (gold_features fl) = {}
       \<and> mset columns =
           mset (nucleus_features fl) + mset (a647_features fl) + mset (gold_features fl)
           + mset (filter is_metadata columns) + mset (filter dropped columns)"
proof -
  have "\<forall>c \<in> set columns. \<exists>g. feature_group_of c = Inr g"
    using classified_no_error[OF assms] by blast
  then have "mset columns =
           mset (nucleus_features fl) + mset (a647_features fl) + mset (gold_features fl)
           + mset (filter is_metadata columns) + mset (filter dropped columns)"
    using mset_filter_groups[of columns] by (simp only: classified_lists[OF assms])
  then show ?thesis using groups_disjoint[OF assms] by blast
qed

theorem feature_lists_partition_witness:
  "classify_columns [''Metadata_Well'', ''Nuclei_Correlation_DAPI_A647'', ''Cells_AreaShape_DAPI'']
     = Inr \<lparr>nucleus_features = [''Cells_AreaShape_DAPI''], a647_features = [], gold_features = []\<rparr>
   \<and> mset [''Metadata_Well'', ''Nuclei_Correlation_DAPI_A647'', ''Cells_AreaShape_DAPI'']
     = mset [''Cells_AreaShape_DAPI''] + mset [] + mset []
       + mset (filter is_metadata [''Metadata_Well'', ''Nuclei_Correlation_DAPI_A647'', ''Cells_AreaShape_DAPI''])
       + mset (filter dropped [''Metadata_Well'', ''Nuclei_Correlation_DAPI_A647'', ''Cells_AreaShape_DAPI''])"
proof -
  have h: "classify_columns [''Metadata_Well'', ''Nuclei_Correlation_DAPI_A647'', ''Cells_AreaShape_DAPI'']
     = Inr \<lparr>nucleus_features = [''Cells_AreaShape_DAPI''], a647_features = [], gold_features = []\<rparr>"
    by code_simp
  from feature_lists_partition[OF h] h show ?thesis by simp
qed

subsection \<open>The branches of the loop body\<close>

lemma classified_parts:
  assumes "classify_columns columns = Inr fl" and "column \<in> set columns"
    and "\<not> startswith column ''Metadata_''"
  shows "2 \<le> length (str_split column (CHR ''_''))"
proof -
  from classified_no_error[OF assms(1,2)] obtain g where "feature_group_of column = Inr g" ..
  with assms(3) show ?thesis
    by (cases "length (str_split column (CHR ''_'')) \<le> 1") (simp_all add: feature_group_of_def)
qed

lemma groups_holding_correlation:
  assumes "classify_columns columns = Inr fl" and "column \<in> set columns"
    and "\<not> startswith column ''Metadata_''"
    and "contains (str_split column (CHR ''_'') ! 1) ''Correlation''"
  shows "groups_holding fl column =
           (case correlation_group column (str_split column (CHR ''_'')) of None \<Rightarrow> {} | Some g \<Rightarrow> {g})"
proof -
  have "feature_group_of column = Inr (correlation_group column (str_split column (CHR ''_'')))"
    using classified_parts[OF assms(1-3)] assms(3,4) by (simp add: feature_group_of_def)
  then show ?thesis
    using groups_holding_classified[OF assms(1,2)] by (simp split: option.splits)
qed

lemma groups_holding_non_correlation:
  assumes "classify_columns columns = Inr fl" and "column \<in> set columns"
    and "\<not> startswith column ''Metadata_''"
    and "\<not> contains (str_split column (CHR ''_'') ! 1) ''Correlation''"
  shows "groups_holding fl column =
           (case non_correlation_group (str_split column (CHR ''_'')) of None \<Rightarrow> {} | Some g \<Rightarrow> {g})"
proof -
  have "feature_group_of column = Inr (non_correlation_group (str_split column (CHR ''_'')))"
    using classified_parts[OF assms(1-3)] assms(3,4) by (simp add: feature_group_of_def)
  then show ?thesis
    using groups_holding_classified[OF assms(1,2)] by (simp split: option.splits)
qed

text \<open>
  C3: a column of the input that is not a metadata column and whose \<open>parts[1]\<close> contains
  \<open>Correlation\<close> ends up as follows. If the name contains \<open>DAPI\<close>: in Target-A alone when
  it has at least 5 parts and \<open>parts[3]\<close> or \<open>parts[4]\<close> contains \<open>A647\<close>; otherwise in
  Target-B alone when it has at least 5 parts and \<open>parts[3]\<close> or \<open>parts[4]\<close> contains
  \<open>GOLD\<close>; otherwise in no list. If the name does not contain \<open>DAPI\<close>, the same with
  \<open>parts[3]\<close> only and at least 4 parts.
\<close>

theorem correlation_columns:
  assumes "classify_columns columns = Inr fl" and "column \<in> set columns"
    and "\<not> startswith column ''Metadata_''"
    and "parts = str_split column (CHR ''_'')"
    and "contains (parts ! 1) ''Correlation''"
  shows "groups_holding fl column =
     (if contains column ''DAPI'' then
        (if 5 \<le> length parts \<and> (contains (parts ! 3) ''A647'' \<or> contains (parts ! 4) ''A647'')
         then {A647}
         else if 5 \<le> length parts \<and> (contains (parts ! 3) ''GOLD'' \<or> contains (parts ! 4) ''GOLD'')
         then {GOLD}
         else {})
      else
        (if 4 \<le> length parts \<and> contains (parts ! 3) ''A647'' then {A647}
         else if 4 \<le> length parts \<and> contains (parts ! 3) ''GOLD'' then {GOLD}
         else {}))"
proof -
  have five: "(4 < length parts) = (5 \<le> length parts)" and four: "(3 < length parts) = (4 \<le> length parts)"
    by auto
  have "groups_holding fl column = (case correlation_group column parts of None \<Rightarrow> {} | Some g \<Rightarrow> {g})"
    using groups_holding_correlation[OF assms(1-3)] assms(4,5) by simp
  then show ?thesis
    by (simp add: correlation_group_def five four)
qed

theorem correlation_columns_witness:
  "classify_columns [''Nuclei_Correlation_Correlation_DAPI_A647'']
     = Inr \<lparr>nucleus_features = [], a647_features = [''Nuclei_Correlation_Correlation_DAPI_A647''],
            gold_features = []\<rparr>
   \<and> groups_holding \<lparr>nucleus_features = [], a647_features = [''Nuclei_Correlation_Correlation_DAPI_A647''],
            gold_features = []\<rparr> ''Nuclei_Correlation_Correlation_DAPI_A647'' = {A647}"
proof -
  let ?c = "''Nuclei_Correlation_Correlation_DAPI_A647''"
  let ?fl = "\<lparr>nucleus_features = [], a647_features = [?c], gold_features = []\<rparr>"
  let ?parts = "[''Nuclei'', ''Correlation'', ''Correlation'', ''DAPI'', ''A647'']"
  have h1: "classify_columns [?c] = Inr ?fl" by code_simp
  have h2: "?c \<in> set [?c]" by simp
  have h3: "\<not> startswith ?c ''Metadata_''" by code_simp
  have h4: "?parts = str_split ?c (CHR ''_'')" by code_simp
  have h5: "contains (?parts ! 1) ''Correlation''" by code_simp
  have d: "contains ?c ''DAPI''" by code_simp
  have a: "contains (?parts ! 4) ''A647''" by code_simp
  from correlation_columns[OF h1 h2 h3 h4 h5] d a have "groups_holding ?fl ?c = {A647}"
    by (simp only: if_True list.size) simp
  with h1 show ?thesis by (rule conjI)
qed

text \<open>
  C4: a column of the input that is not a metadata column, whose \<open>parts[1]\<close> does not contain
  \<open>Correlation\<close> but contains \<open>Location\<close>, and whose name has at least 5 parts, is placed by
  comparing \<open>parts[4]\<close> for equality: \<open>DAPI\<close> puts it in Nucleus, \<open>A647\<close> in Target-A,
  \<open>GOLD\<close> in Target-B, and any other value leaves it in no list: it does not reach the
  Nucleus default.
\<close>

theorem location_columns:
  assumes "classify_columns columns = Inr fl" and "column \<in> set columns"
    and "\<not> startswith column ''Metadata_''"
    and "parts = str_split column (CHR ''_'')"
    and "\<not> contains (parts ! 1) ''Correlation''"
    and "contains (parts ! 1) ''Location''"
    and "5 \<le> length parts"
  shows "groups_holding fl column =
     (if parts ! 4 = ''DAPI'' then {Nucleus}
      else if parts ! 4 = ''A647'' then {A647}
      else if parts ! 4 = ''GOLD'' then {GOLD}
      else {})"
proof -
  have "groups_holding fl column = (case non_correlation_group parts of None \<Rightarrow> {} | Some g \<Rightarrow> {g})"
    using groups_holding_non_correlation[OF assms(1-3)] assms(4,5) by simp
  moreover have "non_correlation_group parts = location_group parts"
    using assms(6,7) by (simp add: non_correlation_group_def)
  ultimately show ?thesis
    by (simp add: location_group_def)
qed

theorem location_columns_witness:
  "classify_columns [''Nuclei_Location_CenterMassIntensity_X_GOLD'', ''Nuclei_Location_Center_X_DAPIx'']
     = Inr \<lparr>nucleus_features = [], a647_features = [],
            gold_features = [''Nuclei_Location_CenterMassIntensity_X_GOLD'']\<rparr>
   \<and> groups_holding \<lparr>nucleus_features = [], a647_features = [],
            gold_features = [''Nuclei_Location_CenterMassIntensity_X_GOLD'']\<rparr>
         ''Nuclei_Location_CenterMassIntensity_X_GOLD'' = {GOLD}
   \<and> groups_holding \<lparr>nucleus_features = [], a647_features = [],
            gold_features = [''Nuclei_Location_CenterMassIntensity_X_GOLD'']\<rparr>
         ''Nuclei_Location_Center_X_DAPIx'' = {}"
proof -
  let ?c = "''Nuclei_Location_CenterMassIntensity_X_GOLD''"
  let ?d = "''Nuclei_Location_Center_X_DAPIx''"
  let ?fl = "\<lparr>nucleus_features = [], a647_features = [], gold_features = [?c]\<rparr>"
  let ?parts = "[''Nuclei'', ''Location'', ''CenterMassIntensity'', ''X'', ''GOLD'']"
  let ?partsd = "[''Nuclei'', ''Location'', ''Center'', ''X'', ''DAPIx'']"
  have h1: "classify_columns [?c, ?d] = Inr ?fl" by code_simp
  have h2: "?c \<in> set [?c, ?d]" by simp
  have h3: "\<not> startswith ?c ''Metadata_''" by code_simp
  have h4: "?parts = str_split ?c (CHR ''_'')" by code_simp
  have h5: "\<not> contains (?parts ! 1) ''Correlation''" by code_simp
  have h6: "contains (?parts ! 1) ''Location''" by code_simp
  have h7: "5 \<le> length ?parts" by simp
  have k2: "?d \<in> set [?c, ?d]" by simp
  have k3: "\<not> startswith ?d ''Metadata_''" by code_simp
  have k4: "?partsd = str_split ?d (CHR ''_'')" by code_simp
  have k5: "\<not> contains (?partsd ! 1) ''Correlation''" by code_simp
  have k6: "contains (?partsd ! 1) ''Location''" by code_simp
  have k7: "5 \<le> length ?partsd" by simp
  from location_columns[OF h1 h2 h3 h4 h5 h6 h7] have a: "groups_holding ?fl ?c = {GOLD}"
    by simp
  from location_columns[OF h1 k2 k3 k4 k5 k6 k7] have b: "groups_holding ?fl ?d = {}"
    by simp
  from h1 a b show ?thesis by blast
qed

text \<open>
  C5 as the specification states it fails: not every column that is no correlation feature
  and matches no marker is placed in Nucleus. \<open>Nuclei_Location_Center_X_Y\<close> is not a metadata
  column, its \<open>parts[1]\<close> does not contain \<open>Correlation\<close>, it contains none of the three
  markers, and it ends up in no list: it has five parts and \<open>Location\<close> in \<open>parts[1]\<close>, so
  it takes the chain of lines 88 to 93, which has no \<^verbatim>\<open>else\<close>.
\<close>

theorem location_fallback_counterexample:
  "classify_columns [''Nuclei_Location_Center_X_Y'']
     = Inr \<lparr>nucleus_features = [], a647_features = [], gold_features = []\<rparr>
   \<and> \<not> is_metadata ''Nuclei_Location_Center_X_Y''
   \<and> \<not> contains (str_split ''Nuclei_Location_Center_X_Y'' (CHR ''_'') ! 1) ''Correlation''
   \<and> \<not> contains ''Nuclei_Location_Center_X_Y'' ''DAPI''
   \<and> \<not> contains ''Nuclei_Location_Center_X_Y'' ''A647''
   \<and> \<not> contains ''Nuclei_Location_Center_X_Y'' ''GOLD''"
  by code_simp

text \<open>
  C5, amended: the fallback depends on the arm. A column that is not a metadata column and
  whose \<open>parts[1]\<close> contains \<open>Correlation\<close> is never placed in Nucleus, and when it
  matches none of the marker tests of its arm it is in no list. A column whose \<open>parts[1]\<close>
  does not contain \<open>Correlation\<close> and that matches no marker is placed in Nucleus by the
  final \<^verbatim>\<open>else\<close>, unless it has at least five parts and \<open>Location\<close> in \<open>parts[1]\<close>:
  then it is in no list either.
\<close>

theorem fallback_asymmetry:
  assumes "classify_columns columns = Inr fl" and "column \<in> set columns"
    and "\<not> startswith column ''Metadata_''"
    and "parts = str_split column (CHR ''_'')"
  shows "(contains (parts ! 1) ''Correlation'' \<longrightarrow> Nucleus \<notin> groups_holding fl column)
       \<and> (contains (parts ! 1) ''Correlation'' \<and> contains column ''DAPI''
            \<and> \<not> (5 \<le> length parts \<and> (contains (parts ! 3) ''A647'' \<or> contains (parts ! 4) ''A647''))
            \<and> \<not> (5 \<le> length parts \<and> (contains (parts ! 3) ''GOLD'' \<or> contains (parts ! 4) ''GOLD''))
           \<longrightarrow> groups_holding fl column = {})
       \<and> (contains (parts ! 1) ''Correlation'' \<and> \<not> contains column ''DAPI''
            \<and> \<not> (4 \<le> length parts \<and> contains (parts ! 3) ''A647'')
            \<and> \<not> (4 \<le> length parts \<and> contains (parts ! 3) ''GOLD'')
           \<longrightarrow> groups_holding fl column = {})
       \<and> (\<not> contains (parts ! 1) ''Correlation''
            \<and> \<not> (5 \<le> length parts \<and> contains (parts ! 1) ''Location'')
            \<and> \<not> (4 \<le> length parts \<and> contains (parts ! 3) ''DAPI'')
            \<and> \<not> (4 \<le> length parts \<and> contains (parts ! 3) ''A647'')
            \<and> \<not> (4 \<le> length parts \<and> contains (parts ! 3) ''GOLD'')
           \<longrightarrow> groups_holding fl column = {Nucleus})
       \<and> (\<not> contains (parts ! 1) ''Correlation''
            \<and> 5 \<le> length parts \<and> contains (parts ! 1) ''Location''
            \<and> parts ! 4 \<noteq> ''DAPI'' \<and> parts ! 4 \<noteq> ''A647'' \<and> parts ! 4 \<noteq> ''GOLD''
           \<longrightarrow> groups_holding fl column = {})"
proof -
  have five: "(4 < length parts) = (5 \<le> length parts)" and four: "(3 < length parts) = (4 \<le> length parts)"
    by auto
  have corr: "contains (parts ! 1) ''Correlation'' \<Longrightarrow>
      groups_holding fl column = (case correlation_group column parts of None \<Rightarrow> {} | Some g \<Rightarrow> {g})"
    using groups_holding_correlation[OF assms(1-3)] assms(4) by simp
  have other: "\<not> contains (parts ! 1) ''Correlation'' \<Longrightarrow>
      groups_holding fl column = (case non_correlation_group parts of None \<Rightarrow> {} | Some g \<Rightarrow> {g})"
    using groups_holding_non_correlation[OF assms(1-3)] assms(4) by simp
  have a: "contains (parts ! 1) ''Correlation'' \<longrightarrow> Nucleus \<notin> groups_holding fl column"
    using corr by (simp add: correlation_group_def)
  have b: "contains (parts ! 1) ''Correlation'' \<and> contains column ''DAPI''
            \<and> \<not> (5 \<le> length parts \<and> (contains (parts ! 3) ''A647'' \<or> contains (parts ! 4) ''A647''))
            \<and> \<not> (5 \<le> length parts \<and> (contains (parts ! 3) ''GOLD'' \<or> contains (parts ! 4) ''GOLD''))
           \<longrightarrow> groups_holding fl column = {}"
    using corr by (simp add: correlation_group_def five)
  have c: "contains (parts ! 1) ''Correlation'' \<and> \<not> contains column ''DAPI''
            \<and> \<not> (4 \<le> length parts \<and> contains (parts ! 3) ''A647'')
            \<and> \<not> (4 \<le> length parts \<and> contains (parts ! 3) ''GOLD'')
           \<longrightarrow> groups_holding fl column = {}"
    using corr by (simp add: correlation_group_def four)
  have d: "\<not> contains (parts ! 1) ''Correlation''
            \<and> \<not> (5 \<le> length parts \<and> contains (parts ! 1) ''Location'')
            \<and> \<not> (4 \<le> length parts \<and> contains (parts ! 3) ''DAPI'')
            \<and> \<not> (4 \<le> length parts \<and> contains (parts ! 3) ''A647'')
            \<and> \<not> (4 \<le> length parts \<and> contains (parts ! 3) ''GOLD'')
           \<longrightarrow> groups_holding fl column = {Nucleus}"
    using other by (simp add: non_correlation_group_def five four)
  have e: "\<not> contains (parts ! 1) ''Correlation''
            \<and> 5 \<le> length parts \<and> contains (parts ! 1) ''Location''
            \<and> parts ! 4 \<noteq> ''DAPI'' \<and> parts ! 4 \<noteq> ''A647'' \<and> parts ! 4 \<noteq> ''GOLD''
           \<longrightarrow> groups_holding fl column = {}"
    using other by (simp add: non_correlation_group_def location_group_def five)
  from a b c d e show ?thesis by blast
qed

theorem fallback_asymmetry_witness:
  "classify_columns [''Nuclei_Correlation_Correlation_DAPI_DAPI'', ''Cells_AreaShape_Area'',
                     ''Nuclei_Location_Center_X_Y'']
     = Inr \<lparr>nucleus_features = [''Cells_AreaShape_Area''], a647_features = [], gold_features = []\<rparr>
   \<and> groups_holding \<lparr>nucleus_features = [''Cells_AreaShape_Area''], a647_features = [], gold_features = []\<rparr>
         ''Nuclei_Correlation_Correlation_DAPI_DAPI'' = {}
   \<and> groups_holding \<lparr>nucleus_features = [''Cells_AreaShape_Area''], a647_features = [], gold_features = []\<rparr>
         ''Cells_AreaShape_Area'' = {Nucleus}
   \<and> groups_holding \<lparr>nucleus_features = [''Cells_AreaShape_Area''], a647_features = [], gold_features = []\<rparr>
         ''Nuclei_Location_Center_X_Y'' = {}"
proof -
  let ?c = "''Nuclei_Correlation_Correlation_DAPI_DAPI''"
  let ?d = "''Cells_AreaShape_Area''"
  let ?l = "''Nuclei_Location_Center_X_Y''"
  let ?fl = "\<lparr>nucleus_features = [?d], a647_features = [], gold_features = []\<rparr>"
  let ?parts = "[''Nuclei'', ''Correlation'', ''Correlation'', ''DAPI'', ''DAPI'']"
  let ?partsd = "[''Cells'', ''AreaShape'', ''Area'']"
  let ?partsl = "[''Nuclei'', ''Location'', ''Center'', ''X'', ''Y'']"
  have h1: "classify_columns [?c, ?d, ?l] = Inr ?fl" by code_simp
  have h2: "?c \<in> set [?c, ?d, ?l]" by simp
  have h3: "\<not> startswith ?c ''Metadata_''" by code_simp
  have h4: "?parts = str_split ?c (CHR ''_'')" by code_simp
  have k2: "?d \<in> set [?c, ?d, ?l]" by simp
  have k3: "\<not> startswith ?d ''Metadata_''" by code_simp
  have k4: "?partsd = str_split ?d (CHR ''_'')" by code_simp
  have l2: "?l \<in> set [?c, ?d, ?l]" by simp
  have l3: "\<not> startswith ?l ''Metadata_''" by code_simp
  have l4: "?partsl = str_split ?l (CHR ''_'')" by code_simp
  have c1: "contains (?parts ! 1) ''Correlation''" by code_simp
  have c2: "contains ?c ''DAPI''" by code_simp
  have c3: "\<not> (contains (?parts ! 3) ''A647'' \<or> contains (?parts ! 4) ''A647'')" by code_simp
  have c4: "\<not> (contains (?parts ! 3) ''GOLD'' \<or> contains (?parts ! 4) ''GOLD'')" by code_simp
  have d1: "\<not> contains (?partsd ! 1) ''Correlation''" by code_simp
  have d2: "\<not> 4 \<le> length ?partsd" "\<not> 5 \<le> length ?partsd" by simp_all
  have e1: "\<not> contains (?partsl ! 1) ''Correlation''" by code_simp
  have e2: "5 \<le> length ?partsl" by simp
  have e3: "contains (?partsl ! 1) ''Location''" by code_simp
  have e4: "?partsl ! 4 \<noteq> ''DAPI''" "?partsl ! 4 \<noteq> ''A647''" "?partsl ! 4 \<noteq> ''GOLD''" by simp_all
  from fallback_asymmetry[OF h1 h2 h3 h4] c1 c2 c3 c4 have a: "groups_holding ?fl ?c = {}"
    by blast
  from fallback_asymmetry[OF h1 k2 k3 k4] d1 d2 have b: "groups_holding ?fl ?d = {Nucleus}"
    by blast
  from fallback_asymmetry[OF h1 l2 l3 l4] e1 e2 e3 e4 have c: "groups_holding ?fl ?l = {}"
    by blast
  from h1 a b c show ?thesis by blast
qed

subsection \<open>No column in two lists\<close>

lemma count_list_filter:
  "count_list (filter P xs) x = (if P x then count_list xs x else 0)"
  by (induction xs) auto

text \<open>
  C6: when the loop finishes, no column name is a member of two of the three lists, so the
  set of groups holding it has at most one element; and a name is appended at most once for
  each of its occurrences among the input columns.
\<close>

theorem at_most_one_group:
  assumes "classify_columns columns = Inr fl"
  shows "card (groups_holding fl column) \<le> 1
       \<and> \<not> (column \<in> set (nucleus_features fl) \<and> column \<in> set (a647_features fl))
       \<and> \<not> (column \<in> set (nucleus_features fl) \<and> column \<in> set (gold_features fl))
       \<and> \<not> (column \<in> set (a647_features fl) \<and> column \<in> set (gold_features fl))
       \<and> count_list (nucleus_features fl) column + count_list (a647_features fl) column
           + count_list (gold_features fl) column \<le> count_list columns column"
proof -
  have d: "\<not> (column \<in> set (nucleus_features fl) \<and> column \<in> set (a647_features fl))"
       "\<not> (column \<in> set (nucleus_features fl) \<and> column \<in> set (gold_features fl))"
       "\<not> (column \<in> set (a647_features fl) \<and> column \<in> set (gold_features fl))"
    using groups_disjoint[OF assms] by auto
  then have c: "card (groups_holding fl column) \<le> 1"
    by (auto simp add: groups_holding_def)
  have n: "count_list (nucleus_features fl) column + count_list (a647_features fl) column
           + count_list (gold_features fl) column \<le> count_list columns column"
    by (simp add: classified_lists[OF assms] count_list_filter)
  from c d n show ?thesis by blast
qed

theorem at_most_one_group_witness:
  "classify_columns [''Cells_AreaShape_DAPI'', ''Nuclei_Intensity_Mean_A647'', ''Cells_AreaShape_DAPI'']
     = Inr \<lparr>nucleus_features = [''Cells_AreaShape_DAPI'', ''Cells_AreaShape_DAPI''],
            a647_features = [''Nuclei_Intensity_Mean_A647''], gold_features = []\<rparr>
   \<and> card (groups_holding \<lparr>nucleus_features = [''Cells_AreaShape_DAPI'', ''Cells_AreaShape_DAPI''],
            a647_features = [''Nuclei_Intensity_Mean_A647''], gold_features = []\<rparr>
            ''Nuclei_Intensity_Mean_A647'') \<le> 1"
proof -
  have h: "classify_columns [''Cells_AreaShape_DAPI'', ''Nuclei_Intensity_Mean_A647'', ''Cells_AreaShape_DAPI'']
     = Inr \<lparr>nucleus_features = [''Cells_AreaShape_DAPI'', ''Cells_AreaShape_DAPI''],
            a647_features = [''Nuclei_Intensity_Mean_A647''], gold_features = []\<rparr>"
    by code_simp
  from at_most_one_group[OF h, of "''Nuclei_Intensity_Mean_A647''"] h show ?thesis by blast
qed

subsection \<open>The unguarded index\<close>

text \<open>
  C10: \<^verbatim>\<open>parts[1]\<close> is read for every column that is not a metadata column, so the loop
  body raises \<^verbatim>\<open>IndexError\<close> exactly for the columns that are not metadata columns
  and split into fewer than two parts, which are exactly the names without an underscore.
  The loop over the columns raises exactly when some column is of that kind, and it
  returns the three lists exactly under the precondition that every column that is not a
  metadata column splits into at least two parts.
\<close>

theorem parts_index_precondition:
  "(feature_group_of column = Inl IndexError
      \<longleftrightarrow> \<not> startswith column ''Metadata_'' \<and> length (str_split column (CHR ''_'')) < 2)
   \<and> (CHR ''_'' \<notin> set column
      \<longleftrightarrow> \<not> startswith column ''Metadata_'' \<and> length (str_split column (CHR ''_'')) = 1)
   \<and> (classify_columns columns = Inl IndexError
      \<longleftrightarrow> (\<exists>c \<in> set columns. \<not> startswith c ''Metadata_'' \<and> length (str_split c (CHR ''_'')) < 2))
   \<and> ((\<exists>fl. classify_columns columns = Inr fl)
      \<longleftrightarrow> (\<forall>c \<in> set columns. startswith c ''Metadata_'' \<or> 2 \<le> length (str_split c (CHR ''_''))))"
proof -
  have short: "\<And>c. (\<not> startswith c ''Metadata_'' \<and> length (str_split c (CHR ''_'')) < 2)
                 \<longleftrightarrow> CHR ''_'' \<notin> set c"
    using startswith_Metadata_underscore str_split_single_iff[of _ "CHR ''_''"]
    by (metis One_nat_def Suc_1 less_Suc_eq_le)
  have one: "\<And>c. length (str_split c (CHR ''_'')) < 2 \<longleftrightarrow> length (str_split c (CHR ''_'')) = 1"
    by (auto simp add: length_str_split)
  have a: "feature_group_of column = Inl IndexError
      \<longleftrightarrow> \<not> startswith column ''Metadata_'' \<and> length (str_split column (CHR ''_'')) < 2"
    by (simp add: feature_group_of_error_iff short)
  have b: "CHR ''_'' \<notin> set column
      \<longleftrightarrow> \<not> startswith column ''Metadata_'' \<and> length (str_split column (CHR ''_'')) = 1"
    using short[of column] one[of column] by blast
  have ok: "(\<exists>fl. classify_columns columns = Inr fl) \<longleftrightarrow> (\<forall>c \<in> set columns. CHR ''_'' \<in> set c)"
    by (simp add: classify_columns_def categorize_ok_iff)
  have d: "(\<exists>fl. classify_columns columns = Inr fl)
      \<longleftrightarrow> (\<forall>c \<in> set columns. startswith c ''Metadata_'' \<or> 2 \<le> length (str_split c (CHR ''_'')))"
    using ok short by (metis not_less)
  have "classify_columns columns = Inl IndexError \<longleftrightarrow> \<not> (\<exists>fl. classify_columns columns = Inr fl)"
    using categorize_error[of columns no_features]
    by (cases "classify_columns columns") (auto simp add: classify_columns_def)
  then have c: "classify_columns columns = Inl IndexError
      \<longleftrightarrow> (\<exists>c \<in> set columns. \<not> startswith c ''Metadata_'' \<and> length (str_split c (CHR ''_'')) < 2)"
    using d by (metis not_less)
  from a b c d show ?thesis by blast
qed

theorem parts_index_precondition_witness:
  "feature_group_of ''Area'' = Inl IndexError
   \<and> classify_columns [''Metadata_Well'', ''Area''] = Inl IndexError
   \<and> classify_columns [''Metadata_Well'', ''Cells_Area''] \<noteq> Inl IndexError"
proof -
  have a: "\<not> startswith ''Area'' ''Metadata_'' \<and> length (str_split ''Area'' (CHR ''_'')) < 2"
    by code_simp
  have m: "startswith ''Metadata_Well'' ''Metadata_''" by code_simp
  have l: "\<not> length (str_split ''Cells_Area'' (CHR ''_'')) < 2" by code_simp
  have s1: "set [''Metadata_Well'', ''Area''] = {''Metadata_Well'', ''Area''}"
    and s2: "set [''Metadata_Well'', ''Cells_Area''] = {''Metadata_Well'', ''Cells_Area''}" by simp_all
  from parts_index_precondition[of "''Area''" "[''Metadata_Well'', ''Area'']"] a
  have x: "feature_group_of ''Area'' = Inl IndexError"
    and y: "classify_columns [''Metadata_Well'', ''Area''] = Inl IndexError"
    unfolding s1 by blast+
  from parts_index_precondition[of "''Area''" "[''Metadata_Well'', ''Cells_Area'']"] m l
  have z: "classify_columns [''Metadata_Well'', ''Cells_Area''] \<noteq> Inl IndexError"
    unfolding s2 by blast
  from x y z show ?thesis by blast
qed

section \<open>Properties of the training run\<close>

subsection \<open>The shuffled baseline\<close>

lemma mset_rotate: "mset (rotate n xs) = mset xs"
proof (induction n)
  case 0
  then show ?case by simp
next
  case (Suc n)
  have "mset (rotate1 ys) = mset ys" for ys :: "'a list" by (cases ys) simp_all
  with Suc show ?case by simp
qed

lemma shuffle_columns_names:
  "map fst (fst (shuffle_columns shuffle X g)) = map fst X"
proof (induction X arbitrary: g)
  case Nil
  then show ?case by simp
next
  case (Cons c cs)
  obtain name vals where c: "c = (name, vals)" by (cases c)
  obtain vals' g1 where s: "shuffle g vals = (vals', g1)" by (cases "shuffle g vals")
  obtain cs' g2 where r: "shuffle_columns shuffle cs g1 = (cs', g2)"
    by (cases "shuffle_columns shuffle cs g1")
  have "map fst cs' = map fst cs" using Cons.IH[of g1] r by simp
  then show ?case using c s r by simp
qed

lemma shuffle_columns_msets:
  assumes "\<And>g vals. mset (fst (shuffle g vals)) = mset vals"
  shows "map (\<lambda>c. mset (snd c)) (fst (shuffle_columns shuffle X g)) = map (\<lambda>c. mset (snd c)) X"
proof (induction X arbitrary: g)
  case Nil
  then show ?case by simp
next
  case (Cons c cs)
  obtain name vals where c: "c = (name, vals)" by (cases c)
  obtain vals' g1 where s: "shuffle g vals = (vals', g1)" by (cases "shuffle g vals")
  obtain cs' g2 where r: "shuffle_columns shuffle cs g1 = (cs', g2)"
    by (cases "shuffle_columns shuffle cs g1")
  have "mset vals' = mset vals" using assms[of g vals] s by simp
  moreover have "map (\<lambda>c. mset (snd c)) cs' = map (\<lambda>c. mset (snd c)) cs"
    using Cons.IH[of g1] r by simp
  ultimately show ?case using c s r by simp
qed

text \<open>
  C7: for a library shuffle that returns a permutation of the values it is given, the
  shuffled baseline has the column names of the Nucleus predictor matrix in the same order,
  the same number of values in every column (hence the same shape), and in every column
  the same values as the source column, as multisets.
\<close>

theorem shuffled_baseline_permutes:
  assumes "\<And>g vals. mset (fst (shuffle g vals)) = mset vals"
  shows "map fst (fst (shuffle_columns shuffle X g)) = map fst X
       \<and> map (\<lambda>c. length (snd c)) (fst (shuffle_columns shuffle X g)) = map (\<lambda>c. length (snd c)) X
       \<and> map (\<lambda>c. mset (snd c)) (fst (shuffle_columns shuffle X g)) = map (\<lambda>c. mset (snd c)) X"
proof -
  have m: "map (\<lambda>c. mset (snd c)) (fst (shuffle_columns shuffle X g)) = map (\<lambda>c. mset (snd c)) X"
    using assms by (rule shuffle_columns_msets)
  then have "map size (map (\<lambda>c. mset (snd c)) (fst (shuffle_columns shuffle X g)))
           = map size (map (\<lambda>c. mset (snd c)) X)" by (rule arg_cong)
  then have l: "map (\<lambda>c. length (snd c)) (fst (shuffle_columns shuffle X g)) = map (\<lambda>c. length (snd c)) X"
    by (simp add: comp_def)
  from shuffle_columns_names[of shuffle X g] l m show ?thesis by blast
qed

theorem shuffled_baseline_permutes_witness:
  "fst (shuffle_columns rotate_shuffle [(''Area'', [1, 2, 3 :: nat]), (''Mean'', [4, 5, 6])] (1 :: nat))
     = [(''Area'', [2, 3, 1]), (''Mean'', [6, 4, 5])]
   \<and> map (\<lambda>c. mset (snd c)) [(''Area'', [2, 3, 1 :: nat]), (''Mean'', [6, 4, 5])]
     = map (\<lambda>c. mset (snd c)) [(''Area'', [1, 2, 3]), (''Mean'', [4, 5, 6])]"
proof -
  have h: "\<And>(g :: nat) (vals :: nat list). mset (fst (rotate_shuffle g vals)) = mset vals"
    by (simp add: rotate_shuffle_def mset_rotate)
  have e: "fst (shuffle_columns rotate_shuffle [(''Area'', [1, 2, 3 :: nat]), (''Mean'', [4, 5, 6])] (1 :: nat))
     = [(''Area'', [2, 3, 1]), (''Mean'', [6, 4, 5])]"
    by code_simp
  from shuffled_baseline_permutes[of rotate_shuffle "[(''Area'', [1, 2, 3 :: nat]), (''Mean'', [4, 5, 6])]" 1, OF h]
  have "map (\<lambda>c. mset (snd c)) (fst (shuffle_columns rotate_shuffle [(''Area'', [1, 2, 3 :: nat]), (''Mean'', [4, 5, 6])] (1 :: nat)))
     = map (\<lambda>c. mset (snd c)) [(''Area'', [1, 2, 3]), (''Mean'', [4, 5, 6])]"
    by blast
  with e show ?thesis by simp
qed

subsection \<open>Paths of plain names\<close>

lemma str_split_no_sep: "sep \<notin> set s \<Longrightarrow> str_split s sep = [s]"
  by (induction s) auto

lemma path_div_plain:
  assumes "CHR ''/'' \<notin> set s" and "s \<noteq> []" and "s \<noteq> ''.''"
  shows "path_div p s = p @ [s]"
proof -
  have "\<not> startswith s ''/''"
  proof
    assume "startswith s ''/''"
    then have "take 1 s = ''/''" by (simp add: startswith_def)
    then have "set (take 1 s) = {CHR ''/''}" by simp
    then have "CHR ''/'' \<in> set (take 1 s)" by simp
    then have "CHR ''/'' \<in> set s" by (rule in_set_takeD)
    with assms(1) show False by simp
  qed
  then show ?thesis
    using assms by (simp add: path_div_def path_names_def str_split_no_sep)
qed

lemma script_dirs:
  "model_dir = [''models'']"
  "final_dir = [''models'', ''final'']"
  "shuffled_dir = [''models'', ''shuffled_baseline'']"
  "all_features_dir = [''models'', ''all_features'']"
  by code_simp+

lemma path_div_suffix:
  assumes "CHR ''/'' \<notin> set f" and "CHR ''/'' \<notin> set suffix" and "2 \<le> length suffix"
  shows "path_div p (f @ suffix) = p @ [f @ suffix]"
proof (rule path_div_plain)
  show "CHR ''/'' \<notin> set (f @ suffix)" using assms by simp
  show "f @ suffix \<noteq> []" using assms(3) by auto
  have long: "2 \<le> length (f @ suffix)" using assms(3) by simp
  show "f @ suffix \<noteq> ''.''"
  proof
    assume "f @ suffix = ''.''"
    then have "length (f @ suffix) = length ''.''" by (rule arg_cong)
    with long show False by simp
  qed
qed

subsection \<open>The log of a run\<close>

lemma fit_and_dump_Inr:
  "fit_and_dump fit dump P y file log = Inr log' \<Longrightarrow>
     \<exists>best. fit P y = Inr best \<and> dump best file = None
        \<and> log' = log @ [\<lparr>predictors = P, target = y, saved_to = file, estimator = best\<rparr>]"
  by (auto simp add: fit_and_dump_def split: sum.splits option.splits)

lemma train_individual_steps:
  assumes "train_individual fit dump df X Xs (f # fs) log = Inr log'"
  shows "\<exists>y b1 b2. get_column df f = Inr y
           \<and> fit X (Single y) = Inr b1
           \<and> dump b1 (path_div final_dir (f @ ''_tuned_model.joblib'')) = None
           \<and> fit Xs (Single y) = Inr b2
           \<and> dump b2 (path_div shuffled_dir (f @ ''_shuffled_tuned_model.joblib'')) = None
           \<and> train_individual fit dump df X Xs fs
                (log @ [\<lparr>predictors = X, target = Single y,
                          saved_to = path_div final_dir (f @ ''_tuned_model.joblib''),
                          estimator = b1\<rparr>,
                        \<lparr>predictors = Xs, target = Single y,
                          saved_to = path_div shuffled_dir (f @ ''_shuffled_tuned_model.joblib''),
                          estimator = b2\<rparr>]) = Inr log'"
proof -
  from assms obtain y log1 log2 where
    y: "get_column df f = Inr y"
    and l1: "fit_and_dump fit dump X (Single y) (path_div final_dir (f @ ''_tuned_model.joblib'')) log = Inr log1"
    and l2: "fit_and_dump fit dump Xs (Single y) (path_div shuffled_dir (f @ ''_shuffled_tuned_model.joblib'')) log1 = Inr log2"
    and rest: "train_individual fit dump df X Xs fs log2 = Inr log'"
    by (auto split: sum.splits)
  from fit_and_dump_Inr[OF l1] obtain b1 where
    b1: "fit X (Single y) = Inr b1" "dump b1 (path_div final_dir (f @ ''_tuned_model.joblib'')) = None"
       "log1 = log @ [\<lparr>predictors = X, target = Single y,
                          saved_to = path_div final_dir (f @ ''_tuned_model.joblib''),
                          estimator = b1\<rparr>]" by blast
  from fit_and_dump_Inr[OF l2] obtain b2 where
    b2: "fit Xs (Single y) = Inr b2" "dump b2 (path_div shuffled_dir (f @ ''_shuffled_tuned_model.joblib'')) = None"
       "log2 = log1 @ [\<lparr>predictors = Xs, target = Single y,
                          saved_to = path_div shuffled_dir (f @ ''_shuffled_tuned_model.joblib''),
                          estimator = b2\<rparr>]" by blast
  from y b1 b2 rest show ?thesis by simp
qed

lemma train_individual_log:
  "train_individual fit dump df X Xs features log = Inr log' \<Longrightarrow>
     map (\<lambda>a. (saved_to a, predictors a)) log' =
       map (\<lambda>a. (saved_to a, predictors a)) log @
       concat (map (\<lambda>f. [(path_div final_dir (f @ ''_tuned_model.joblib''), X),
                          (path_div shuffled_dir (f @ ''_shuffled_tuned_model.joblib''), Xs)]) features)"
proof (induction features arbitrary: log)
  case Nil
  then show ?case by simp
next
  case (Cons f fs)
  from train_individual_steps[OF Cons.prems] obtain y b1 b2 where
    rest: "train_individual fit dump df X Xs fs
                (log @ [\<lparr>predictors = X, target = Single y,
                          saved_to = path_div final_dir (f @ ''_tuned_model.joblib''),
                          estimator = b1\<rparr>,
                        \<lparr>predictors = Xs, target = Single y,
                          saved_to = path_div shuffled_dir (f @ ''_shuffled_tuned_model.joblib''),
                          estimator = b2\<rparr>]) = Inr log'" by blast
  from Cons.IH[OF rest] show ?case by simp
qed

lemma train_individual_targets:
  "train_individual fit dump df X Xs features log = Inr log' \<Longrightarrow>
     \<exists>ys. map (get_column df) features = map Inr ys
        \<and> map target log' = map target log @ concat (map (\<lambda>y. [Single y, Single y]) ys)"
proof (induction features arbitrary: log)
  case Nil
  then show ?case by simp
next
  case (Cons f fs)
  from train_individual_steps[OF Cons.prems] obtain y b1 b2 where
    y: "get_column df f = Inr y" and
    rest: "train_individual fit dump df X Xs fs
                (log @ [\<lparr>predictors = X, target = Single y,
                          saved_to = path_div final_dir (f @ ''_tuned_model.joblib''),
                          estimator = b1\<rparr>,
                        \<lparr>predictors = Xs, target = Single y,
                          saved_to = path_div shuffled_dir (f @ ''_shuffled_tuned_model.joblib''),
                          estimator = b2\<rparr>]) = Inr log'" by blast
  from Cons.IH[OF rest] obtain ys where
    ys: "map (get_column df) fs = map Inr ys"
    and t: "map target log' = map target (log @ [\<lparr>predictors = X, target = Single y,
                          saved_to = path_div final_dir (f @ ''_tuned_model.joblib''),
                          estimator = b1\<rparr>,
                        \<lparr>predictors = Xs, target = Single y,
                          saved_to = path_div shuffled_dir (f @ ''_shuffled_tuned_model.joblib''),
                          estimator = b2\<rparr>]) @ concat (map (\<lambda>y. [Single y, Single y]) ys)"
    by blast
  have "map (get_column df) (f # fs) = map Inr (y # ys)" using y ys by simp
  moreover have "map target log' = map target log @ concat (map (\<lambda>y. [Single y, Single y]) (y # ys))"
    using t by simp
  ultimately show ?case by blast
qed

lemma train_individual_recorded:
  "train_individual fit dump df X Xs features log = Inr log' \<Longrightarrow>
   \<forall>a \<in> set log. fit (predictors a) (target a) = Inr (estimator a) \<and> dump (estimator a) (saved_to a) = None \<Longrightarrow>
   \<forall>a \<in> set log'. fit (predictors a) (target a) = Inr (estimator a) \<and> dump (estimator a) (saved_to a) = None"
proof (induction features arbitrary: log)
  case Nil
  then show ?case by simp
next
  case (Cons f fs)
  from train_individual_steps[OF Cons.prems(1)] obtain y b1 b2 where
    b: "fit X (Single y) = Inr b1"
       "dump b1 (path_div final_dir (f @ ''_tuned_model.joblib'')) = None"
       "fit Xs (Single y) = Inr b2"
       "dump b2 (path_div shuffled_dir (f @ ''_shuffled_tuned_model.joblib'')) = None" and
    rest: "train_individual fit dump df X Xs fs
                (log @ [\<lparr>predictors = X, target = Single y,
                          saved_to = path_div final_dir (f @ ''_tuned_model.joblib''),
                          estimator = b1\<rparr>,
                        \<lparr>predictors = Xs, target = Single y,
                          saved_to = path_div shuffled_dir (f @ ''_shuffled_tuned_model.joblib''),
                          estimator = b2\<rparr>]) = Inr log'" by blast
  show ?case
  proof (rule Cons.IH[OF rest])
    show "\<forall>a \<in> set (log @ [\<lparr>predictors = X, target = Single y,
                          saved_to = path_div final_dir (f @ ''_tuned_model.joblib''),
                          estimator = b1\<rparr>,
                        \<lparr>predictors = Xs, target = Single y,
                          saved_to = path_div shuffled_dir (f @ ''_shuffled_tuned_model.joblib''),
                          estimator = b2\<rparr>]).
            fit (predictors a) (target a) = Inr (estimator a) \<and> dump (estimator a) (saved_to a) = None"
      using Cons.prems(2) b by simp
  qed
qed

lemma train_combined_steps:
  assumes "train_combined fit dump df X Xs ((stain, feats) # sets) log = Inr log'"
  shows "\<exists>Y b1 b2. get_columns df feats = Inr Y
           \<and> fit X (Multi Y) = Inr b1
           \<and> dump b1 (path_div all_features_dir (''combined_'' @ stain @ ''_tuned_model.joblib'')) = None
           \<and> fit Xs (Multi Y) = Inr b2
           \<and> dump b2 (path_div all_features_dir (''combined_'' @ stain @ ''_shuffled_tuned_model.joblib'')) = None
           \<and> train_combined fit dump df X Xs sets
                (log @ [\<lparr>predictors = X, target = Multi Y,
                          saved_to = path_div all_features_dir (''combined_'' @ stain @ ''_tuned_model.joblib''),
                          estimator = b1\<rparr>,
                        \<lparr>predictors = Xs, target = Multi Y,
                          saved_to = path_div all_features_dir
                                       (''combined_'' @ stain @ ''_shuffled_tuned_model.joblib''),
                          estimator = b2\<rparr>]) = Inr log'"
proof -
  from assms obtain Y log1 log2 where
    y: "get_columns df feats = Inr Y"
    and l1: "fit_and_dump fit dump X (Multi Y)
               (path_div all_features_dir (''combined_'' @ stain @ ''_tuned_model.joblib'')) log = Inr log1"
    and l2: "fit_and_dump fit dump Xs (Multi Y)
               (path_div all_features_dir (''combined_'' @ stain @ ''_shuffled_tuned_model.joblib'')) log1 = Inr log2"
    and rest: "train_combined fit dump df X Xs sets log2 = Inr log'"
    by (auto split: sum.splits)
  from fit_and_dump_Inr[OF l1] obtain b1 where
    b1: "fit X (Multi Y) = Inr b1"
       "dump b1 (path_div all_features_dir (''combined_'' @ stain @ ''_tuned_model.joblib'')) = None"
       "log1 = log @ [\<lparr>predictors = X, target = Multi Y,
                          saved_to = path_div all_features_dir (''combined_'' @ stain @ ''_tuned_model.joblib''),
                          estimator = b1\<rparr>]" by blast
  from fit_and_dump_Inr[OF l2] obtain b2 where
    b2: "fit Xs (Multi Y) = Inr b2"
       "dump b2 (path_div all_features_dir (''combined_'' @ stain @ ''_shuffled_tuned_model.joblib'')) = None"
       "log2 = log1 @ [\<lparr>predictors = Xs, target = Multi Y,
                          saved_to = path_div all_features_dir
                                       (''combined_'' @ stain @ ''_shuffled_tuned_model.joblib''),
                          estimator = b2\<rparr>]" by blast
  from y b1 b2 rest show ?thesis by simp
qed

lemma train_combined_two:
  assumes "train_combined fit dump df X Xs [(''A647'', fa), (''GOLD'', fg)] [] = Inr log"
  shows "\<exists>Ya Yg a1 a2 g1 g2.
           get_columns df fa = Inr Ya \<and> get_columns df fg = Inr Yg
         \<and> fit X (Multi Ya) = Inr a1 \<and> fit Xs (Multi Ya) = Inr a2
         \<and> fit X (Multi Yg) = Inr g1 \<and> fit Xs (Multi Yg) = Inr g2
         \<and> dump a1 [''models'', ''all_features'', ''combined_A647_tuned_model.joblib''] = None
         \<and> dump a2 [''models'', ''all_features'', ''combined_A647_shuffled_tuned_model.joblib''] = None
         \<and> dump g1 [''models'', ''all_features'', ''combined_GOLD_tuned_model.joblib''] = None
         \<and> dump g2 [''models'', ''all_features'', ''combined_GOLD_shuffled_tuned_model.joblib''] = None
         \<and> log = [\<lparr>predictors = X, target = Multi Ya,
                    saved_to = [''models'', ''all_features'', ''combined_A647_tuned_model.joblib''],
                    estimator = a1\<rparr>,
                  \<lparr>predictors = Xs, target = Multi Ya,
                    saved_to = [''models'', ''all_features'', ''combined_A647_shuffled_tuned_model.joblib''],
                    estimator = a2\<rparr>,
                  \<lparr>predictors = X, target = Multi Yg,
                    saved_to = [''models'', ''all_features'', ''combined_GOLD_tuned_model.joblib''],
                    estimator = g1\<rparr>,
                  \<lparr>predictors = Xs, target = Multi Yg,
                    saved_to = [''models'', ''all_features'', ''combined_GOLD_shuffled_tuned_model.joblib''],
                    estimator = g2\<rparr>]"
proof -
  have p: "path_div all_features_dir (''combined_'' @ ''A647'' @ ''_tuned_model.joblib'')
             = [''models'', ''all_features'', ''combined_A647_tuned_model.joblib'']"
          "path_div all_features_dir (''combined_'' @ ''A647'' @ ''_shuffled_tuned_model.joblib'')
             = [''models'', ''all_features'', ''combined_A647_shuffled_tuned_model.joblib'']"
          "path_div all_features_dir (''combined_'' @ ''GOLD'' @ ''_tuned_model.joblib'')
             = [''models'', ''all_features'', ''combined_GOLD_tuned_model.joblib'']"
          "path_div all_features_dir (''combined_'' @ ''GOLD'' @ ''_shuffled_tuned_model.joblib'')
             = [''models'', ''all_features'', ''combined_GOLD_shuffled_tuned_model.joblib'']"
    by code_simp+
  from train_combined_steps[OF assms] obtain Ya a1 a2 where
    a: "get_columns df fa = Inr Ya" "fit X (Multi Ya) = Inr a1" "fit Xs (Multi Ya) = Inr a2"
       "dump a1 [''models'', ''all_features'', ''combined_A647_tuned_model.joblib''] = None"
       "dump a2 [''models'', ''all_features'', ''combined_A647_shuffled_tuned_model.joblib''] = None"
    and r1: "train_combined fit dump df X Xs [(''GOLD'', fg)]
                ([] @ [\<lparr>predictors = X, target = Multi Ya,
                    saved_to = [''models'', ''all_features'', ''combined_A647_tuned_model.joblib''],
                    estimator = a1\<rparr>,
                  \<lparr>predictors = Xs, target = Multi Ya,
                    saved_to = [''models'', ''all_features'', ''combined_A647_shuffled_tuned_model.joblib''],
                    estimator = a2\<rparr>]) = Inr log"
    unfolding p by blast
  from train_combined_steps[OF r1] obtain Yg g1 g2 where
    g: "get_columns df fg = Inr Yg" "fit X (Multi Yg) = Inr g1" "fit Xs (Multi Yg) = Inr g2"
       "dump g1 [''models'', ''all_features'', ''combined_GOLD_tuned_model.joblib''] = None"
       "dump g2 [''models'', ''all_features'', ''combined_GOLD_shuffled_tuned_model.joblib''] = None"
    and r2: "train_combined fit dump df X Xs []
                (([] @ [\<lparr>predictors = X, target = Multi Ya,
                    saved_to = [''models'', ''all_features'', ''combined_A647_tuned_model.joblib''],
                    estimator = a1\<rparr>,
                  \<lparr>predictors = Xs, target = Multi Ya,
                    saved_to = [''models'', ''all_features'', ''combined_A647_shuffled_tuned_model.joblib''],
                    estimator = a2\<rparr>]) @
                 [\<lparr>predictors = X, target = Multi Yg,
                    saved_to = [''models'', ''all_features'', ''combined_GOLD_tuned_model.joblib''],
                    estimator = g1\<rparr>,
                  \<lparr>predictors = Xs, target = Multi Yg,
                    saved_to = [''models'', ''all_features'', ''combined_GOLD_shuffled_tuned_model.joblib''],
                    estimator = g2\<rparr>]) = Inr log"
    unfolding p by blast
  from r2 have "log = [\<lparr>predictors = X, target = Multi Ya,
                    saved_to = [''models'', ''all_features'', ''combined_A647_tuned_model.joblib''],
                    estimator = a1\<rparr>,
                  \<lparr>predictors = Xs, target = Multi Ya,
                    saved_to = [''models'', ''all_features'', ''combined_A647_shuffled_tuned_model.joblib''],
                    estimator = a2\<rparr>,
                  \<lparr>predictors = X, target = Multi Yg,
                    saved_to = [''models'', ''all_features'', ''combined_GOLD_tuned_model.joblib''],
                    estimator = g1\<rparr>,
                  \<lparr>predictors = Xs, target = Multi Yg,
                    saved_to = [''models'', ''all_features'', ''combined_GOLD_shuffled_tuned_model.joblib''],
                    estimator = g2\<rparr>]"
    by simp
  with a g show ?thesis by blast
qed

lemma run_steps:
  assumes "run fit dump shuffle df g = Inr (log, g')"
  shows "\<exists>fl X Xs log1 log2.
           classify_columns (map fst df) = Inr fl
         \<and> get_columns df (nucleus_features fl) = Inr X
         \<and> shuffle_columns shuffle X g = (Xs, g')
         \<and> train_combined fit dump df X Xs
              [(''A647'', a647_features fl), (''GOLD'', gold_features fl)] [] = Inr log1
         \<and> train_individual fit dump df X Xs (a647_features fl) log1 = Inr log2
         \<and> train_individual fit dump df X Xs (gold_features fl) log2 = Inr log"
proof -
  from assms obtain fl where fl: "classify_columns (map fst df) = Inr fl"
    by (cases "classify_columns (map fst df)") (simp_all add: run_def)
  from assms fl obtain X where X: "get_columns df (nucleus_features fl) = Inr X"
    by (cases "get_columns df (nucleus_features fl)") (simp_all add: run_def)
  obtain Xs g1 where sh: "shuffle_columns shuffle X g = (Xs, g1)"
    by (cases "shuffle_columns shuffle X g")
  from assms fl X sh obtain log1 where
    l1: "train_combined fit dump df X Xs [(''A647'', a647_features fl), (''GOLD'', gold_features fl)] [] = Inr log1"
    by (cases "train_combined fit dump df X Xs [(''A647'', a647_features fl), (''GOLD'', gold_features fl)] []")
       (simp_all add: run_def)
  from assms fl X sh l1 obtain log2 where
    l2: "train_individual fit dump df X Xs (a647_features fl) log1 = Inr log2"
    by (cases "train_individual fit dump df X Xs (a647_features fl) log1") (simp_all add: run_def)
  from assms fl X sh l1 l2 have
    l3: "train_individual fit dump df X Xs (gold_features fl) log2 = Inr log" and g: "g' = g1"
    by (cases "train_individual fit dump df X Xs (gold_features fl) log2"; simp add: run_def)+
  from fl X sh g l1 l2 l3 show ?thesis by blast
qed

lemma run_log:
  assumes "run fit dump shuffle df g = Inr (log, g')"
  shows "\<exists>fl X Xs. classify_columns (map fst df) = Inr fl
           \<and> get_columns df (nucleus_features fl) = Inr X
           \<and> shuffle_columns shuffle X g = (Xs, g')
           \<and> map (\<lambda>a. (saved_to a, predictors a)) log =
               [([''models'', ''all_features'', ''combined_A647_tuned_model.joblib''], X),
                ([''models'', ''all_features'', ''combined_A647_shuffled_tuned_model.joblib''], Xs),
                ([''models'', ''all_features'', ''combined_GOLD_tuned_model.joblib''], X),
                ([''models'', ''all_features'', ''combined_GOLD_shuffled_tuned_model.joblib''], Xs)]
               @ concat (map (\<lambda>f. [(path_div [''models'', ''final''] (f @ ''_tuned_model.joblib''), X),
                                    (path_div [''models'', ''shuffled_baseline'']
                                       (f @ ''_shuffled_tuned_model.joblib''), Xs)])
                             (a647_features fl @ gold_features fl))"
proof -
  from run_steps[OF assms] obtain fl X Xs log1 log2 where
    fl: "classify_columns (map fst df) = Inr fl"
    and X: "get_columns df (nucleus_features fl) = Inr X"
    and sh: "shuffle_columns shuffle X g = (Xs, g')"
    and l1: "train_combined fit dump df X Xs
              [(''A647'', a647_features fl), (''GOLD'', gold_features fl)] [] = Inr log1"
    and l2: "train_individual fit dump df X Xs (a647_features fl) log1 = Inr log2"
    and l3: "train_individual fit dump df X Xs (gold_features fl) log2 = Inr log"
    by blast
  from train_combined_two[OF l1] have c:
    "map (\<lambda>a. (saved_to a, predictors a)) log1 =
               [([''models'', ''all_features'', ''combined_A647_tuned_model.joblib''], X),
                ([''models'', ''all_features'', ''combined_A647_shuffled_tuned_model.joblib''], Xs),
                ([''models'', ''all_features'', ''combined_GOLD_tuned_model.joblib''], X),
                ([''models'', ''all_features'', ''combined_GOLD_shuffled_tuned_model.joblib''], Xs)]"
    by auto
  have "map (\<lambda>a. (saved_to a, predictors a)) log =
               [([''models'', ''all_features'', ''combined_A647_tuned_model.joblib''], X),
                ([''models'', ''all_features'', ''combined_A647_shuffled_tuned_model.joblib''], Xs),
                ([''models'', ''all_features'', ''combined_GOLD_tuned_model.joblib''], X),
                ([''models'', ''all_features'', ''combined_GOLD_shuffled_tuned_model.joblib''], Xs)]
               @ concat (map (\<lambda>f. [(path_div [''models'', ''final''] (f @ ''_tuned_model.joblib''), X),
                                    (path_div [''models'', ''shuffled_baseline'']
                                       (f @ ''_shuffled_tuned_model.joblib''), Xs)])
                             (a647_features fl @ gold_features fl))"
    using train_individual_log[OF l2] train_individual_log[OF l3] c
    by (simp add: script_dirs)
  with fl X sh show ?thesis by blast
qed

subsection \<open>One shuffled matrix for every shuffled fit\<close>

text \<open>
  C8: in a run that completes, the shuffled matrix is the result of the one pass of the
  shuffle over the columns of the Nucleus predictor matrix, made from the initial state of
  the generator before any fit; the final state of the generator is the state after that
  pass, so nothing shuffles again. The fits alternate between the real and the shuffled
  condition, and every fit of the shuffled condition, the two combined ones and the one of
  every individual feature, receives that same matrix. The files are given as the script
  forms them, the directory joined with the file name.
\<close>

theorem shuffled_matrix_shared:
  assumes "run fit dump shuffle training_df g = Inr (log, g')"
  shows "\<exists>fl X X_shuffled.
           classify_columns (map fst training_df) = Inr fl
         \<and> get_columns training_df (nucleus_features fl) = Inr X
         \<and> shuffle_columns shuffle X g = (X_shuffled, g')
         \<and> map (\<lambda>a. (saved_to a, predictors a)) log =
             [([''models'', ''all_features'', ''combined_A647_tuned_model.joblib''], X),
              ([''models'', ''all_features'', ''combined_A647_shuffled_tuned_model.joblib''], X_shuffled),
              ([''models'', ''all_features'', ''combined_GOLD_tuned_model.joblib''], X),
              ([''models'', ''all_features'', ''combined_GOLD_shuffled_tuned_model.joblib''], X_shuffled)]
             @ concat (map (\<lambda>f. [(path_div [''models'', ''final''] (f @ ''_tuned_model.joblib''), X),
                                  (path_div [''models'', ''shuffled_baseline'']
                                     (f @ ''_shuffled_tuned_model.joblib''), X_shuffled)])
                           (a647_features fl @ gold_features fl))
         \<and> map predictors log =
             concat (replicate (2 + length (a647_features fl) + length (gold_features fl)) [X, X_shuffled])"
proof -
  from run_log[OF assms] obtain fl X Xs where
    fl: "classify_columns (map fst training_df) = Inr fl"
    and X: "get_columns training_df (nucleus_features fl) = Inr X"
    and sh: "shuffle_columns shuffle X g = (Xs, g')"
    and paths: "map (\<lambda>a. (saved_to a, predictors a)) log =
               [([''models'', ''all_features'', ''combined_A647_tuned_model.joblib''], X),
                ([''models'', ''all_features'', ''combined_A647_shuffled_tuned_model.joblib''], Xs),
                ([''models'', ''all_features'', ''combined_GOLD_tuned_model.joblib''], X),
                ([''models'', ''all_features'', ''combined_GOLD_shuffled_tuned_model.joblib''], Xs)]
               @ concat (map (\<lambda>f. [(path_div [''models'', ''final''] (f @ ''_tuned_model.joblib''), X),
                                    (path_div [''models'', ''shuffled_baseline'']
                                       (f @ ''_shuffled_tuned_model.joblib''), Xs)])
                             (a647_features fl @ gold_features fl))"
    by blast
  have rep: "concat (map (\<lambda>f. [X, Xs]) fs) = concat (replicate (length fs) [X, Xs])"
    for fs :: "string list"
    by (induction fs) simp_all
  have "map predictors log = map snd (map (\<lambda>a. (saved_to a, predictors a)) log)"
    by (simp add: comp_def)
  also have "\<dots> = [X, Xs, X, Xs] @ concat (map (\<lambda>f. [X, Xs]) (a647_features fl @ gold_features fl))"
    unfolding paths by (simp add: map_concat comp_def)
  also have "\<dots> = [X, Xs, X, Xs] @ concat (replicate (length (a647_features fl @ gold_features fl)) [X, Xs])"
    by (simp only: rep)
  also have "\<dots> = concat (replicate (2 + length (a647_features fl) + length (gold_features fl)) [X, Xs])"
    by (simp add: numeral_2_eq_2 replicate_add)
  finally have preds: "map predictors log =
      concat (replicate (2 + length (a647_features fl) + length (gold_features fl)) [X, Xs])" .
  from fl X sh paths preds show ?thesis by blast
qed

theorem shuffled_matrix_shared_witness:
  "run names_fit plain_dump rotate_shuffle
      [(''Cells_AreaShape_Area'', [1, 2, 3 :: nat]), (''Nuclei_Intensity_Mean_A647'', [4, 5, 6])] (1 :: nat)
    = Inr ([\<lparr>predictors = [(''Cells_AreaShape_Area'', [1, 2, 3])],
             target = Multi [(''Nuclei_Intensity_Mean_A647'', [4, 5, 6])],
             saved_to = [''models'', ''all_features'', ''combined_A647_tuned_model.joblib''],
             estimator = [''Cells_AreaShape_Area'']\<rparr>,
            \<lparr>predictors = [(''Cells_AreaShape_Area'', [2, 3, 1])],
             target = Multi [(''Nuclei_Intensity_Mean_A647'', [4, 5, 6])],
             saved_to = [''models'', ''all_features'', ''combined_A647_shuffled_tuned_model.joblib''],
             estimator = [''Cells_AreaShape_Area'']\<rparr>,
            \<lparr>predictors = [(''Cells_AreaShape_Area'', [1, 2, 3])],
             target = Multi [],
             saved_to = [''models'', ''all_features'', ''combined_GOLD_tuned_model.joblib''],
             estimator = [''Cells_AreaShape_Area'']\<rparr>,
            \<lparr>predictors = [(''Cells_AreaShape_Area'', [2, 3, 1])],
             target = Multi [],
             saved_to = [''models'', ''all_features'', ''combined_GOLD_shuffled_tuned_model.joblib''],
             estimator = [''Cells_AreaShape_Area'']\<rparr>,
            \<lparr>predictors = [(''Cells_AreaShape_Area'', [1, 2, 3])],
             target = Single (''Nuclei_Intensity_Mean_A647'', [4, 5, 6]),
             saved_to = [''models'', ''final'', ''Nuclei_Intensity_Mean_A647_tuned_model.joblib''],
             estimator = [''Cells_AreaShape_Area'']\<rparr>,
            \<lparr>predictors = [(''Cells_AreaShape_Area'', [2, 3, 1])],
             target = Single (''Nuclei_Intensity_Mean_A647'', [4, 5, 6]),
             saved_to = [''models'', ''shuffled_baseline'',
                         ''Nuclei_Intensity_Mean_A647_shuffled_tuned_model.joblib''],
             estimator = [''Cells_AreaShape_Area'']\<rparr>], 2)
   \<and> shuffle_columns rotate_shuffle [(''Cells_AreaShape_Area'', [1, 2, 3 :: nat])] (1 :: nat)
       = ([(''Cells_AreaShape_Area'', [2, 3, 1])], 2)"
proof -
  let ?df = "[(''Cells_AreaShape_Area'', [1, 2, 3 :: nat]), (''Nuclei_Intensity_Mean_A647'', [4, 5, 6])]"
  let ?log = "[\<lparr>predictors = [(''Cells_AreaShape_Area'', [1, 2, 3 :: nat])],
             target = Multi [(''Nuclei_Intensity_Mean_A647'', [4, 5, 6 :: nat])],
             saved_to = [''models'', ''all_features'', ''combined_A647_tuned_model.joblib''],
             estimator = [''Cells_AreaShape_Area'']\<rparr>,
            \<lparr>predictors = [(''Cells_AreaShape_Area'', [2, 3, 1])],
             target = Multi [(''Nuclei_Intensity_Mean_A647'', [4, 5, 6])],
             saved_to = [''models'', ''all_features'', ''combined_A647_shuffled_tuned_model.joblib''],
             estimator = [''Cells_AreaShape_Area'']\<rparr>,
            \<lparr>predictors = [(''Cells_AreaShape_Area'', [1, 2, 3])],
             target = Multi [],
             saved_to = [''models'', ''all_features'', ''combined_GOLD_tuned_model.joblib''],
             estimator = [''Cells_AreaShape_Area'']\<rparr>,
            \<lparr>predictors = [(''Cells_AreaShape_Area'', [2, 3, 1])],
             target = Multi [],
             saved_to = [''models'', ''all_features'', ''combined_GOLD_shuffled_tuned_model.joblib''],
             estimator = [''Cells_AreaShape_Area'']\<rparr>,
            \<lparr>predictors = [(''Cells_AreaShape_Area'', [1, 2, 3])],
             target = Single (''Nuclei_Intensity_Mean_A647'', [4, 5, 6]),
             saved_to = [''models'', ''final'', ''Nuclei_Intensity_Mean_A647_tuned_model.joblib''],
             estimator = [''Cells_AreaShape_Area'']\<rparr>,
            \<lparr>predictors = [(''Cells_AreaShape_Area'', [2, 3, 1])],
             target = Single (''Nuclei_Intensity_Mean_A647'', [4, 5, 6]),
             saved_to = [''models'', ''shuffled_baseline'',
                         ''Nuclei_Intensity_Mean_A647_shuffled_tuned_model.joblib''],
             estimator = [''Cells_AreaShape_Area'']\<rparr>]"
  have h: "run names_fit plain_dump rotate_shuffle ?df (1 :: nat) = Inr (?log, 2)"
    by code_simp
  have c: "classify_columns (map fst ?df)
     = Inr \<lparr>nucleus_features = [''Cells_AreaShape_Area''],
            a647_features = [''Nuclei_Intensity_Mean_A647''], gold_features = []\<rparr>"
    by code_simp
  have x: "get_columns ?df [''Cells_AreaShape_Area''] = Inr [(''Cells_AreaShape_Area'', [1, 2, 3])]"
    by code_simp
  from shuffled_matrix_shared[OF h] obtain fl X X_shuffled where
    a: "classify_columns (map fst ?df) = Inr fl"
    and b: "get_columns ?df (nucleus_features fl) = Inr X"
    and s: "shuffle_columns rotate_shuffle X 1 = (X_shuffled, 2)"
    by blast
  from a c have "Inr fl = (Inr \<lparr>nucleus_features = [''Cells_AreaShape_Area''],
            a647_features = [''Nuclei_Intensity_Mean_A647''], gold_features = []\<rparr> :: error + feature_lists)"
    by (simp only:)
  then have fl: "nucleus_features fl = [''Cells_AreaShape_Area'']" by simp
  from b x have "X = [(''Cells_AreaShape_Area'', [1, 2, 3])]" by (simp only: fl sum.inject)
  with s have s': "shuffle_columns rotate_shuffle [(''Cells_AreaShape_Area'', [1, 2, 3 :: nat])] (1 :: nat)
       = (X_shuffled, 2)" by (simp only:)
  have "fst (shuffle_columns rotate_shuffle [(''Cells_AreaShape_Area'', [1, 2, 3 :: nat])] (1 :: nat))
       = [(''Cells_AreaShape_Area'', [2, 3, 1])]" by code_simp
  with s' have "shuffle_columns rotate_shuffle [(''Cells_AreaShape_Area'', [1, 2, 3 :: nat])] (1 :: nat)
       = ([(''Cells_AreaShape_Area'', [2, 3, 1])], 2)" by (simp only: fst_conv)
  with h show ?thesis by (rule conjI)
qed

subsection \<open>The files written\<close>

lemma individual_not_all_features:
  "filter (\<lambda>p. take 2 p = [''models'', ''all_features''])
     (concat (map (\<lambda>f. [[''models'', ''final'', f @ s1], [''models'', ''shuffled_baseline'', f @ s2]]) fs)) = []"
  by (induction fs) simp_all

lemma plain_individual_paths:
  assumes "\<forall>f \<in> set fs. CHR ''/'' \<notin> set f"
  shows "map (\<lambda>f. [(path_div [''models'', ''final''] (f @ ''_tuned_model.joblib''), X),
                   (path_div [''models'', ''shuffled_baseline''] (f @ ''_shuffled_tuned_model.joblib''), Xs)]) fs
       = map (\<lambda>f. [([''models'', ''final'', f @ ''_tuned_model.joblib''], X),
                   ([''models'', ''shuffled_baseline'', f @ ''_shuffled_tuned_model.joblib''], Xs)]) fs"
proof (rule map_cong[OF refl])
  fix f assume "f \<in> set fs"
  with assms have n: "CHR ''/'' \<notin> set f" by blast
  have a: "path_div [''models'', ''final''] (f @ ''_tuned_model.joblib'')
             = [''models'', ''final''] @ [f @ ''_tuned_model.joblib'']"
    by (rule path_div_suffix[OF n]) simp_all
  have b: "path_div [''models'', ''shuffled_baseline''] (f @ ''_shuffled_tuned_model.joblib'')
             = [''models'', ''shuffled_baseline''] @ [f @ ''_shuffled_tuned_model.joblib'']"
    by (rule path_div_suffix[OF n]) simp_all
  show "[(path_div [''models'', ''final''] (f @ ''_tuned_model.joblib''), X),
         (path_div [''models'', ''shuffled_baseline''] (f @ ''_shuffled_tuned_model.joblib''), Xs)]
      = [([''models'', ''final'', f @ ''_tuned_model.joblib''], X),
         ([''models'', ''shuffled_baseline'', f @ ''_shuffled_tuned_model.joblib''], Xs)]"
    by (simp only: a b append.simps)
qed

lemma run_targets:
  assumes "run fit dump shuffle df g = Inr (log, g')"
    and "classify_columns (map fst df) = Inr fl"
  shows "\<exists>Ya Yg ys.
           get_columns df (a647_features fl) = Inr Ya
         \<and> get_columns df (gold_features fl) = Inr Yg
         \<and> map (get_column df) (a647_features fl @ gold_features fl) = map Inr ys
         \<and> map target log =
             [Multi Ya, Multi Ya, Multi Yg, Multi Yg] @ concat (map (\<lambda>y. [Single y, Single y]) ys)"
proof -
  from run_steps[OF assms(1)] assms(2) obtain X Xs log1 log2 where
    l1: "train_combined fit dump df X Xs
              [(''A647'', a647_features fl), (''GOLD'', gold_features fl)] [] = Inr log1"
    and l2: "train_individual fit dump df X Xs (a647_features fl) log1 = Inr log2"
    and l3: "train_individual fit dump df X Xs (gold_features fl) log2 = Inr log"
    by auto
  from train_combined_two[OF l1] obtain Ya Yg where
    Y: "get_columns df (a647_features fl) = Inr Ya" "get_columns df (gold_features fl) = Inr Yg"
    and t1: "map target log1 = [Multi Ya, Multi Ya, Multi Yg, Multi Yg]"
    by auto
  from train_individual_targets[OF l2] obtain ya where
    ya: "map (get_column df) (a647_features fl) = map Inr ya"
    and t2: "map target log2 = map target log1 @ concat (map (\<lambda>y. [Single y, Single y]) ya)"
    by blast
  from train_individual_targets[OF l3] obtain yg where
    yg: "map (get_column df) (gold_features fl) = map Inr yg"
    and t3: "map target log = map target log2 @ concat (map (\<lambda>y. [Single y, Single y]) yg)"
    by blast
  have "map (get_column df) (a647_features fl @ gold_features fl) = map Inr (ya @ yg)"
    using ya yg by simp
  moreover have "map target log =
             [Multi Ya, Multi Ya, Multi Yg, Multi Yg] @ concat (map (\<lambda>y. [Single y, Single y]) (ya @ yg))"
    using t1 t2 t3 by simp
  ultimately show ?thesis using Y by blast
qed

lemma run_recorded:
  assumes "run fit dump shuffle df g = Inr (log, g')"
  shows "\<forall>a \<in> set log. fit (predictors a) (target a) = Inr (estimator a)
                        \<and> dump (estimator a) (saved_to a) = None"
proof -
  from run_steps[OF assms] obtain fl X Xs log1 log2 where
    fl: "classify_columns (map fst df) = Inr fl"
    and l1: "train_combined fit dump df X Xs
              [(''A647'', a647_features fl), (''GOLD'', gold_features fl)] [] = Inr log1"
    and l2: "train_individual fit dump df X Xs (a647_features fl) log1 = Inr log2"
    and l3: "train_individual fit dump df X Xs (gold_features fl) log2 = Inr log"
    by blast
  from train_combined_two[OF l1] have r1:
    "\<forall>a \<in> set log1. fit (predictors a) (target a) = Inr (estimator a)
                        \<and> dump (estimator a) (saved_to a) = None"
    by auto
  from train_individual_recorded[OF l2 r1] have r2:
    "\<forall>a \<in> set log2. fit (predictors a) (target a) = Inr (estimator a)
                        \<and> dump (estimator a) (saved_to a) = None" .
  from train_individual_recorded[OF l3 r2] show ?thesis .
qed

text \<open>
  C9 as the specification states it, for every run, fails in two ways. A run stops at the
  first fit that fails: on a table with a Target-A column and no Target-B column, with a
  search that rejects a target without columns, the two combined A647 models are saved,
  the combined GOLD fit fails, and neither the other two combined files nor any file of
  an individual feature is written. And the file of a feature is where \<^verbatim>\<open>pathlib\<close>
  puts it: for the column \<open>/x_a_b_A647\<close>, which the loop places in Target-A, the run
  completes and saves the two individual models under the root directory, not under
  \<open>models/final\<close> and \<open>models/shuffled_baseline\<close>.
\<close>

theorem aborted_run_counterexample:
  "run nonempty_fit plain_dump rotate_shuffle
      [(''Cells_AreaShape_Area'', [1, 2, 3 :: nat]), (''Nuclei_Intensity_Mean_A647'', [4, 5, 6])] (1 :: nat)
    = Inl (FitError,
           [\<lparr>predictors = [(''Cells_AreaShape_Area'', [1, 2, 3])],
              target = Multi [(''Nuclei_Intensity_Mean_A647'', [4, 5, 6])],
              saved_to = [''models'', ''all_features'', ''combined_A647_tuned_model.joblib''],
              estimator = [''Cells_AreaShape_Area'']\<rparr>,
            \<lparr>predictors = [(''Cells_AreaShape_Area'', [2, 3, 1])],
              target = Multi [(''Nuclei_Intensity_Mean_A647'', [4, 5, 6])],
              saved_to = [''models'', ''all_features'', ''combined_A647_shuffled_tuned_model.joblib''],
              estimator = [''Cells_AreaShape_Area'']\<rparr>])
   \<and> run names_fit plain_dump rotate_shuffle
      [(''Cells_Area'', [1, 2 :: nat]), (''/x_a_b_A647'', [3, 4])] (1 :: nat)
    = Inr ([\<lparr>predictors = [(''Cells_Area'', [1, 2])],
              target = Multi [(''/x_a_b_A647'', [3, 4])],
              saved_to = [''models'', ''all_features'', ''combined_A647_tuned_model.joblib''],
              estimator = [''Cells_Area'']\<rparr>,
            \<lparr>predictors = [(''Cells_Area'', [2, 1])],
              target = Multi [(''/x_a_b_A647'', [3, 4])],
              saved_to = [''models'', ''all_features'', ''combined_A647_shuffled_tuned_model.joblib''],
              estimator = [''Cells_Area'']\<rparr>,
            \<lparr>predictors = [(''Cells_Area'', [1, 2])],
              target = Multi [],
              saved_to = [''models'', ''all_features'', ''combined_GOLD_tuned_model.joblib''],
              estimator = [''Cells_Area'']\<rparr>,
            \<lparr>predictors = [(''Cells_Area'', [2, 1])],
              target = Multi [],
              saved_to = [''models'', ''all_features'', ''combined_GOLD_shuffled_tuned_model.joblib''],
              estimator = [''Cells_Area'']\<rparr>,
            \<lparr>predictors = [(''Cells_Area'', [1, 2])],
              target = Single (''/x_a_b_A647'', [3, 4]),
              saved_to = [''/'', ''x_a_b_A647_tuned_model.joblib''],
              estimator = [''Cells_Area'']\<rparr>,
            \<lparr>predictors = [(''Cells_Area'', [2, 1])],
              target = Single (''/x_a_b_A647'', [3, 4]),
              saved_to = [''/'', ''x_a_b_A647_shuffled_tuned_model.joblib''],
              estimator = [''Cells_Area'']\<rparr>], 2)"
  by code_simp

text \<open>
  C9, amended: in a run that completes, whose target feature names contain no \<open>/\<close>, the
  log is, in this order: the four combined models, for A647 then GOLD the one fitted on the
  real predictors saved as \<open>models/all_features/combined_<STAIN>_tuned_model.joblib\<close> and
  the one fitted on the shuffled matrix saved as
  \<open>models/all_features/combined_<STAIN>_shuffled_tuned_model.joblib\<close>, each with all the
  columns of the stain as its target; then for every feature of Target-A and of Target-B
  the model fitted on the real predictors with that column as target, saved as
  \<open>models/final/<feature>_tuned_model.joblib\<close>, followed by the one fitted on the shuffled
  matrix with the same target, saved as
  \<open>models/shuffled_baseline/<feature>_shuffled_tuned_model.joblib\<close>. Every entry holds the
  estimator its fit returned, and its dump succeeded. Exactly four of the files are under
  \<open>models/all_features\<close>.
\<close>

theorem model_files_written:
  assumes "run fit dump shuffle training_df g = Inr (log, g')"
    and "classify_columns (map fst training_df) = Inr fl"
    and "\<forall>f \<in> set (a647_features fl @ gold_features fl). CHR ''/'' \<notin> set f"
  shows "\<exists>X X_shuffled Ya Yg ys.
           get_columns training_df (nucleus_features fl) = Inr X
         \<and> shuffle_columns shuffle X g = (X_shuffled, g')
         \<and> get_columns training_df (a647_features fl) = Inr Ya
         \<and> get_columns training_df (gold_features fl) = Inr Yg
         \<and> map (get_column training_df) (a647_features fl @ gold_features fl) = map Inr ys
         \<and> map (\<lambda>a. (saved_to a, predictors a)) log =
             [([''models'', ''all_features'', ''combined_A647_tuned_model.joblib''], X),
              ([''models'', ''all_features'', ''combined_A647_shuffled_tuned_model.joblib''], X_shuffled),
              ([''models'', ''all_features'', ''combined_GOLD_tuned_model.joblib''], X),
              ([''models'', ''all_features'', ''combined_GOLD_shuffled_tuned_model.joblib''], X_shuffled)]
             @ concat (map (\<lambda>f. [([''models'', ''final'', f @ ''_tuned_model.joblib''], X),
                                  ([''models'', ''shuffled_baseline'', f @ ''_shuffled_tuned_model.joblib''],
                                     X_shuffled)])
                           (a647_features fl @ gold_features fl))
         \<and> map target log =
             [Multi Ya, Multi Ya, Multi Yg, Multi Yg] @ concat (map (\<lambda>y. [Single y, Single y]) ys)
         \<and> (\<forall>a \<in> set log. fit (predictors a) (target a) = Inr (estimator a)
                            \<and> dump (estimator a) (saved_to a) = None)
         \<and> length (filter (\<lambda>p. take 2 p = [''models'', ''all_features'']) (map saved_to log)) = 4"
proof -
  from run_log[OF assms(1)] assms(2) obtain X Xs where
    X: "get_columns training_df (nucleus_features fl) = Inr X"
    and sh: "shuffle_columns shuffle X g = (Xs, g')"
    and l: "map (\<lambda>a. (saved_to a, predictors a)) log =
               [([''models'', ''all_features'', ''combined_A647_tuned_model.joblib''], X),
                ([''models'', ''all_features'', ''combined_A647_shuffled_tuned_model.joblib''], Xs),
                ([''models'', ''all_features'', ''combined_GOLD_tuned_model.joblib''], X),
                ([''models'', ''all_features'', ''combined_GOLD_shuffled_tuned_model.joblib''], Xs)]
               @ concat (map (\<lambda>f. [(path_div [''models'', ''final''] (f @ ''_tuned_model.joblib''), X),
                                    (path_div [''models'', ''shuffled_baseline'']
                                       (f @ ''_shuffled_tuned_model.joblib''), Xs)])
                             (a647_features fl @ gold_features fl))"
    by auto
  have paths: "map (\<lambda>a. (saved_to a, predictors a)) log =
             [([''models'', ''all_features'', ''combined_A647_tuned_model.joblib''], X),
              ([''models'', ''all_features'', ''combined_A647_shuffled_tuned_model.joblib''], Xs),
              ([''models'', ''all_features'', ''combined_GOLD_tuned_model.joblib''], X),
              ([''models'', ''all_features'', ''combined_GOLD_shuffled_tuned_model.joblib''], Xs)]
             @ concat (map (\<lambda>f. [([''models'', ''final'', f @ ''_tuned_model.joblib''], X),
                                  ([''models'', ''shuffled_baseline'', f @ ''_shuffled_tuned_model.joblib''], Xs)])
                           (a647_features fl @ gold_features fl))"
    unfolding l by (simp only: plain_individual_paths[OF assms(3)])
  from run_targets[OF assms(1,2)] obtain Ya Yg ys where
    Y: "get_columns training_df (a647_features fl) = Inr Ya"
       "get_columns training_df (gold_features fl) = Inr Yg"
       "map (get_column training_df) (a647_features fl @ gold_features fl) = map Inr ys"
    and t: "map target log =
             [Multi Ya, Multi Ya, Multi Yg, Multi Yg] @ concat (map (\<lambda>y. [Single y, Single y]) ys)"
    by blast
  note rec = run_recorded[OF assms(1)]
  have "map saved_to log = map fst (map (\<lambda>a. (saved_to a, predictors a)) log)"
    by (simp add: comp_def)
  also have "\<dots> =
             [[''models'', ''all_features'', ''combined_A647_tuned_model.joblib''],
              [''models'', ''all_features'', ''combined_A647_shuffled_tuned_model.joblib''],
              [''models'', ''all_features'', ''combined_GOLD_tuned_model.joblib''],
              [''models'', ''all_features'', ''combined_GOLD_shuffled_tuned_model.joblib'']]
             @ concat (map (\<lambda>f. [[''models'', ''final'', f @ ''_tuned_model.joblib''],
                                  [''models'', ''shuffled_baseline'', f @ ''_shuffled_tuned_model.joblib'']])
                           (a647_features fl @ gold_features fl))"
    unfolding paths by (simp add: map_concat comp_def)
  finally have files: "map saved_to log =
             [[''models'', ''all_features'', ''combined_A647_tuned_model.joblib''],
              [''models'', ''all_features'', ''combined_A647_shuffled_tuned_model.joblib''],
              [''models'', ''all_features'', ''combined_GOLD_tuned_model.joblib''],
              [''models'', ''all_features'', ''combined_GOLD_shuffled_tuned_model.joblib'']]
             @ concat (map (\<lambda>f. [[''models'', ''final'', f @ ''_tuned_model.joblib''],
                                  [''models'', ''shuffled_baseline'', f @ ''_shuffled_tuned_model.joblib'']])
                           (a647_features fl @ gold_features fl))" .
  have four: "length (filter (\<lambda>p. take 2 p = [''models'', ''all_features'']) (map saved_to log)) = 4"
    unfolding files by (simp only: filter_append individual_not_all_features) simp
  from X sh Y paths t rec four show ?thesis by blast
qed

theorem model_files_written_witness:
  "run names_fit plain_dump rotate_shuffle
      [(''Cells_AreaShape_Area'', [1, 2 :: nat]), (''Nuclei_Intensity_Mean_GOLD'', [3, 4])] (1 :: nat)
    = Inr ([\<lparr>predictors = [(''Cells_AreaShape_Area'', [1, 2])],
              target = Multi [],
              saved_to = [''models'', ''all_features'', ''combined_A647_tuned_model.joblib''],
              estimator = [''Cells_AreaShape_Area'']\<rparr>,
            \<lparr>predictors = [(''Cells_AreaShape_Area'', [2, 1])],
              target = Multi [],
              saved_to = [''models'', ''all_features'', ''combined_A647_shuffled_tuned_model.joblib''],
              estimator = [''Cells_AreaShape_Area'']\<rparr>,
            \<lparr>predictors = [(''Cells_AreaShape_Area'', [1, 2])],
              target = Multi [(''Nuclei_Intensity_Mean_GOLD'', [3, 4])],
              saved_to = [''models'', ''all_features'', ''combined_GOLD_tuned_model.joblib''],
              estimator = [''Cells_AreaShape_Area'']\<rparr>,
            \<lparr>predictors = [(''Cells_AreaShape_Area'', [2, 1])],
              target = Multi [(''Nuclei_Intensity_Mean_GOLD'', [3, 4])],
              saved_to = [''models'', ''all_features'', ''combined_GOLD_shuffled_tuned_model.joblib''],
              estimator = [''Cells_AreaShape_Area'']\<rparr>,
            \<lparr>predictors = [(''Cells_AreaShape_Area'', [1, 2])],
              target = Single (''Nuclei_Intensity_Mean_GOLD'', [3, 4]),
              saved_to = [''models'', ''final'', ''Nuclei_Intensity_Mean_GOLD_tuned_model.joblib''],
              estimator = [''Cells_AreaShape_Area'']\<rparr>,
            \<lparr>predictors = [(''Cells_AreaShape_Area'', [2, 1])],
              target = Single (''Nuclei_Intensity_Mean_GOLD'', [3, 4]),
              saved_to = [''models'', ''shuffled_baseline'',
                          ''Nuclei_Intensity_Mean_GOLD_shuffled_tuned_model.joblib''],
              estimator = [''Cells_AreaShape_Area'']\<rparr>], 2)
   \<and> get_columns [(''Cells_AreaShape_Area'', [1, 2 :: nat]), (''Nuclei_Intensity_Mean_GOLD'', [3, 4])]
         [''Nuclei_Intensity_Mean_GOLD''] = Inr [(''Nuclei_Intensity_Mean_GOLD'', [3, 4])]"
proof -
  let ?df = "[(''Cells_AreaShape_Area'', [1, 2 :: nat]), (''Nuclei_Intensity_Mean_GOLD'', [3, 4])]"
  let ?fl = "\<lparr>nucleus_features = [''Cells_AreaShape_Area''], a647_features = [],
             gold_features = [''Nuclei_Intensity_Mean_GOLD'']\<rparr>"
  let ?log = "[\<lparr>predictors = [(''Cells_AreaShape_Area'', [1, 2 :: nat])],
              target = Multi [],
              saved_to = [''models'', ''all_features'', ''combined_A647_tuned_model.joblib''],
              estimator = [''Cells_AreaShape_Area'']\<rparr>,
            \<lparr>predictors = [(''Cells_AreaShape_Area'', [2, 1])],
              target = Multi [],
              saved_to = [''models'', ''all_features'', ''combined_A647_shuffled_tuned_model.joblib''],
              estimator = [''Cells_AreaShape_Area'']\<rparr>,
            \<lparr>predictors = [(''Cells_AreaShape_Area'', [1, 2])],
              target = Multi [(''Nuclei_Intensity_Mean_GOLD'', [3, 4 :: nat])],
              saved_to = [''models'', ''all_features'', ''combined_GOLD_tuned_model.joblib''],
              estimator = [''Cells_AreaShape_Area'']\<rparr>,
            \<lparr>predictors = [(''Cells_AreaShape_Area'', [2, 1])],
              target = Multi [(''Nuclei_Intensity_Mean_GOLD'', [3, 4])],
              saved_to = [''models'', ''all_features'', ''combined_GOLD_shuffled_tuned_model.joblib''],
              estimator = [''Cells_AreaShape_Area'']\<rparr>,
            \<lparr>predictors = [(''Cells_AreaShape_Area'', [1, 2])],
              target = Single (''Nuclei_Intensity_Mean_GOLD'', [3, 4]),
              saved_to = [''models'', ''final'', ''Nuclei_Intensity_Mean_GOLD_tuned_model.joblib''],
              estimator = [''Cells_AreaShape_Area'']\<rparr>,
            \<lparr>predictors = [(''Cells_AreaShape_Area'', [2, 1])],
              target = Single (''Nuclei_Intensity_Mean_GOLD'', [3, 4]),
              saved_to = [''models'', ''shuffled_baseline'',
                          ''Nuclei_Intensity_Mean_GOLD_shuffled_tuned_model.joblib''],
              estimator = [''Cells_AreaShape_Area'']\<rparr>]"
  have h: "run names_fit plain_dump rotate_shuffle ?df (1 :: nat) = Inr (?log, 2)"
    by code_simp
  have c: "classify_columns (map fst ?df) = Inr ?fl"
    by code_simp
  have n: "\<forall>f \<in> set (a647_features ?fl @ gold_features ?fl). CHR ''/'' \<notin> set f"
    by simp
  from model_files_written[OF h c n] obtain Ya Yg ys where
    y: "get_columns ?df (gold_features ?fl) = Inr Yg"
    and t: "map target ?log =
             [Multi Ya, Multi Ya, Multi Yg, Multi Yg] @ concat (map (\<lambda>y. [Single y, Single y]) ys)"
    by blast
  from t have "Yg = [(''Nuclei_Intensity_Mean_GOLD'', [3, 4])]" by simp
  with y have "get_columns ?df [''Nuclei_Intensity_Mean_GOLD'']
                 = Inr [(''Nuclei_Intensity_Mean_GOLD'', [3, 4])]"
    by simp
  with h show ?thesis by (rule conjI)
qed

end
